theory Spec2Isabelle
  imports Main "HOL-Library.Word"
begin

section \<open>Kubernetes objects\<close>

text \<open>
  The objects of \<^verbatim>\<open>k8s.io/api\<close> that the controller reads and writes, with the fields
  the controller touches. Go pointers are options (\<open>None\<close> is \<^verbatim>\<open>nil\<close>), slices are
  lists, Go maps are HOL maps, \<^verbatim>\<open>int32\<close> is a 32-bit word read as a signed number.
  A field name carries a prefix where two structs have a field of the same name.
\<close>

type_synonym int32 = "32 word"
type_synonym labels = "string \<rightharpoonup> string"
type_synonym Quantity = string

record ObjectFieldSelector =
  FieldPath :: string

record SecretKeySelector =
  LocalObjectReference_Name :: string
  Key :: string

record EnvVarSource =
  FieldRef :: "ObjectFieldSelector option"
  SecretKeyRef :: "SecretKeySelector option"

record EnvVar =
  e_Name :: string
  e_Value :: string
  e_ValueFrom :: "EnvVarSource option"

record VolumeMount =
  m_Name :: string
  m_MountPath :: string

record EmptyDirVolumeSource =
  Medium :: string
  SizeLimit :: "Quantity option"

record SecretVolumeSource =
  SecretName :: string

record VolumeSource =
  HostPath :: "string option"
  EmptyDir :: "EmptyDirVolumeSource option"
  Secret :: "SecretVolumeSource option"
  PersistentVolumeClaim :: "string option"

record Volume =
  v_Name :: string
  v_VolumeSource :: VolumeSource

record ContainerPort =
  cp_Name :: string
  ContainerPort :: int32
  cp_Protocol :: string

record ResourceRequirements =
  Limits :: "string \<rightharpoonup> Quantity"
  Requests :: "string \<rightharpoonup> Quantity"

record Capabilities =
  Add :: "string list"
  Drop :: "string list"

record SecurityContext =
  Privileged :: "bool option"
  Capabilities :: "Capabilities option"

text \<open>Probes, lifecycle hooks, affinity, tolerations and the pod security context are
  copied from the database spec and never inspected: they are opaque values here.\<close>

type_synonym Probe = string
type_synonym Lifecycle = string
type_synonym Affinity = string
type_synonym Toleration = string
type_synonym PodSecurityContext = string

record Container =
  c_Name :: string
  c_Image :: string
  c_Args :: "string list"
  c_Ports :: "ContainerPort list"
  c_Env :: "EnvVar list"
  c_Resources :: ResourceRequirements
  c_VolumeMounts :: "VolumeMount list"
  c_LivenessProbe :: "Probe option"
  c_ReadinessProbe :: "Probe option"
  c_Lifecycle :: "Lifecycle option"
  c_ImagePullPolicy :: string
  c_SecurityContext :: "SecurityContext option"

record OwnerReference =
  or_APIVersion :: string
  or_Kind :: string
  or_Name :: string
  or_UID :: string
  or_Controller :: "bool option"
  or_BlockOwnerDeletion :: "bool option"

record ObjectMeta =
  Name :: string
  Namespace :: string
  UID :: string
  Labels :: labels
  Annotations :: labels
  OwnerReferences :: "OwnerReference list"

record PersistentVolumeClaimSpec =
  AccessModes :: "string list"
  pvc_Resources :: ResourceRequirements
  StorageClassName :: "string option"

record PersistentVolumeClaim = ObjectMeta +
  pvc_Spec :: PersistentVolumeClaimSpec

record PodSpec =
  Volumes :: "Volume list"
  InitContainers :: "Container list"
  Containers :: "Container list"
  NodeSelector :: labels
  ServiceAccountName :: string
  ps_SecurityContext :: "PodSecurityContext option"
  ImagePullSecrets :: "string list"
  Affinity :: "Affinity option"
  SchedulerName :: string
  Tolerations :: "Toleration list"
  PriorityClassName :: string
  Priority :: "int32 option"

record PodTemplateSpec = ObjectMeta +
  t_Spec :: PodSpec

record LabelSelector =
  MatchLabels :: labels

record StatefulSetUpdateStrategy =
  us_Type :: string

record StatefulSetSpec =
  ss_Replicas :: "int32 option"
  ss_Selector :: "LabelSelector option"
  Template :: PodTemplateSpec
  VolumeClaimTemplates :: "PersistentVolumeClaim list"
  ServiceName :: string
  UpdateStrategy :: StatefulSetUpdateStrategy

record StatefulSet = ObjectMeta +
  sts_Spec :: StatefulSetSpec

datatype IntOrString = FromInt int32 | FromString string

record ServicePort =
  sp_Name :: string
  sp_Protocol :: string
  sp_Port :: int32
  sp_TargetPort :: IntOrString
  sp_NodePort :: int32

record ServiceSpec =
  svc_Ports :: "ServicePort list"
  svc_Selector :: labels
  svc_ClusterIP :: string
  svc_Type :: string
  svc_ExternalIPs :: "string list"
  svc_LoadBalancerIP :: string
  svc_LoadBalancerSourceRanges :: "string list"
  svc_ExternalTrafficPolicy :: string
  svc_HealthCheckNodePort :: int32
  PublishNotReadyAddresses :: bool

record Service = ObjectMeta +
  svc_Spec :: ServiceSpec


section \<open>The database object\<close>

text \<open>
  The \<^verbatim>\<open>api.Postgres\<close> custom resource, with the fields that \<^verbatim>\<open>service.go\<close> and
  \<^verbatim>\<open>statefulset.go\<close> read. Which fields are pointers is read off the \<^verbatim>\<open>nil\<close> checks and
  dereferences of the source. The monitoring agent's Prometheus exporter settings are
  reached in the source without a \<^verbatim>\<open>nil\<close> check and are a plain struct here.
\<close>

record S3Spec =
  s3_Bucket :: string
  s3_Prefix :: string
  s3_Endpoint :: string
  s3_Region :: string

record GCSSpec =
  gcs_Bucket :: string
  gcs_Prefix :: string

record AzureSpec =
  az_Container :: string
  az_Prefix :: string

record SwiftSpec =
  sw_Container :: string
  sw_Prefix :: string

record LocalSpec =
  l_VolumeSource :: VolumeSource
  MountPath :: string
  SubPath :: string

record Backend =
  StorageSecretName :: string
  S3 :: "S3Spec option"
  GCS :: "GCSSpec option"
  Azure :: "AzureSpec option"
  Swift :: "SwiftSpec option"
  Local :: "LocalSpec option"

record RecoveryTarget =
  TargetTime :: string
  TargetTimeline :: string
  TargetXID :: string
  TargetInclusive :: "bool option"

record PostgresWALSourceSpec = Backend +
  PITR :: "RecoveryTarget option"

record ScriptSourceSpec =
  scr_VolumeSource :: VolumeSource

record InitSpec =
  Script :: "ScriptSourceSpec option"
  PostgresWAL :: "PostgresWALSourceSpec option"

record PostgresArchiverSpec =
  arch_Storage :: "Backend option"

record LeaderElectionConfig =
  LeaseDurationSeconds :: int32
  RenewDeadlineSeconds :: int32
  RetryPeriodSeconds :: int32

record PrometheusExporterSpec =
  exp_Port :: int32
  exp_Args :: "string list"
  exp_Env :: "EnvVar list"
  exp_Resources :: ResourceRequirements
  exp_SecurityContext :: "SecurityContext option"

record PrometheusSpec =
  Exporter :: PrometheusExporterSpec

record AgentSpec =
  Agent :: string
  Prometheus :: PrometheusSpec

record OffshootServicePort =
  osp_Name :: string
  osp_Port :: int32
  osp_NodePort :: int32

record OffshootServiceSpec =
  os_Ports :: "OffshootServicePort list"
  os_ClusterIP :: string
  os_Type :: string
  os_ExternalIPs :: "string list"
  os_LoadBalancerIP :: string
  os_LoadBalancerSourceRanges :: "string list"
  os_ExternalTrafficPolicy :: string
  os_HealthCheckNodePort :: int32

record ServiceTemplateSpec =
  st_Annotations :: labels
  st_Spec :: OffshootServiceSpec

record OffshootPodSpec =
  o_ServiceAccountName :: string
  o_InitContainers :: "Container list"
  o_NodeSelector :: labels
  o_Affinity :: "Affinity option"
  o_SchedulerName :: string
  o_Tolerations :: "Toleration list"
  o_ImagePullSecrets :: "string list"
  o_PriorityClassName :: string
  o_Priority :: "int32 option"
  o_SecurityContext :: "PodSecurityContext option"
  o_Resources :: ResourceRequirements
  o_LivenessProbe :: "Probe option"
  o_ReadinessProbe :: "Probe option"
  o_Lifecycle :: "Lifecycle option"
  o_Env :: "EnvVar list"

record OffshootPodTemplateSpec =
  pt_Annotations :: labels
  pt_Controller_Annotations :: labels
  pt_Spec :: OffshootPodSpec

record LocalObjectReference =
  lor_Name :: string

record PostgresSpec =
  Replicas :: "int32 option"
  StandbyMode :: "string option"
  StreamingMode :: "string option"
  LeaderElection :: "LeaderElectionConfig option"
  Archiver :: "PostgresArchiverSpec option"
  AuthSecret :: LocalObjectReference
  StorageType :: string
  Storage :: "PersistentVolumeClaimSpec option"
  Init :: "InitSpec option"
  Monitor :: "AgentSpec option"
  ConfigSecret :: "LocalObjectReference option"
  PodTemplate :: OffshootPodTemplateSpec
  ServiceTemplate :: ServiceTemplateSpec
  ReplicaServiceTemplate :: ServiceTemplateSpec

record Condition =
  cond_Type :: string
  cond_Status :: string

record PostgresStatus =
  Conditions :: "Condition list"

record Postgres = ObjectMeta +
  pg_Spec :: PostgresSpec
  pg_Status :: PostgresStatus

record PostgresVersion =
  pv_DB_Image :: string
  pv_Exporter_Image :: string

section \<open>Declarations that are not in the source files\<close>

text \<open>
  \<^verbatim>\<open>service.go\<close> and \<^verbatim>\<open>statefulset.go\<close> use constants and methods of other packages
  (\<^verbatim>\<open>kubedb.dev/apimachinery\<close>, \<^verbatim>\<open>pg-leader-election\<close>, \<^verbatim>\<open>monitoring-agent-api\<close>,
  the analytics client), two constants and the function \<^verbatim>\<open>WalDataDir\<close> of sibling files of
  package \<^verbatim>\<open>controller\<close>, and \<^verbatim>\<open>strings.ToLower\<close>. Their values are parameters: every
  function below takes a record of them, and what is proved holds for all values unless a
  theorem says otherwise.
\<close>

record Api =
  ResourceKindPostgres :: string
  ResourceSingularPostgres :: string
  SchemeGroupVersion :: string
  LabelDatabaseKind :: string
  LabelDatabaseName :: string
  PostgresLabelRole :: string
  PostgresPodPrimary :: string
  PostgresPodStandby :: string
  PostgresPrimaryServicePortName :: string
  PostgresStandbyServicePortName :: string
  PostgresDatabasePortName :: string
  PostgresDatabasePort :: int32
  WarmPostgresStandbyMode :: string
  AsynchronousPostgresStreamingMode :: string
  StorageTypeEphemeral :: string
  DatabaseDataRestored :: string
  OffshootName :: "Postgres \<Rightarrow> string"
  GoverningServiceName :: "Postgres \<Rightarrow> string"
  StandbyServiceName :: "Postgres \<Rightarrow> string"
  db_ServiceName :: "Postgres \<Rightarrow> string"
  StatsService_ServiceName :: "Postgres \<Rightarrow> string"
  StatsService_Path :: "Postgres \<Rightarrow> string"
  OffshootLabels :: "Postgres \<Rightarrow> labels"
  OffshootSelectors :: "Postgres \<Rightarrow> labels"
  StatsServiceLabels :: "Postgres \<Rightarrow> labels"
  WalDataDir :: "Postgres \<Rightarrow> string"
  EnvPostgresUser :: string
  EnvPostgresPassword :: string
  LeaseDurationEnv :: string
  RenewDeadlineEnv :: string
  RetryPeriodEnv :: string
  analytics_Key :: string
  VendorPrometheus :: string
  Vendor :: "string \<Rightarrow> string"
  PrometheusExporterPortName :: string
  strings_ToLower :: "string \<Rightarrow> string"
  EventReasonSuccessful :: string
  core_MergeServicePorts :: "ServicePort list \<Rightarrow> ServicePort list \<Rightarrow> ServicePort list"
  ofst_MergeServicePorts :: "ServicePort list \<Rightarrow> OffshootServicePort list \<Rightarrow> ServicePort list"


section \<open>Outcomes, errors and panics\<close>

text \<open>Modelled from the spec: \<^verbatim>\<open>kutil.VerbType\<close> is declared in \<^verbatim>\<open>kmodules.xyz/client-go\<close>,
  not in the source files. The spec's ReconcileOutcome is ``one of Unchanged, Created,
  Patched; no other states exist''. \<open>verbString\<close> is the text \<^verbatim>\<open>%s\<close> prints for it.\<close>

datatype VerbType = VerbUnchanged | VerbCreated | VerbPatched

fun verbString :: "VerbType \<Rightarrow> string" where
  "verbString VerbUnchanged = []"
| "verbString VerbCreated = ''created''"
| "verbString VerbPatched = ''patched''"

text \<open>An \<^verbatim>\<open>error\<close> value of Go: the not-found answer of the API server (the one
  \<^verbatim>\<open>kerr.IsNotFound\<close> recognises), any other failure of the client, or an error made by
  \<^verbatim>\<open>fmt.Errorf\<close>, with its message. \<open>None\<close> of type \<open>error option\<close> is \<^verbatim>\<open>nil\<close>.\<close>

datatype error = NotFound | ClientError string | Errorf string

definition IsNotFound :: "error \<Rightarrow> bool" where
  "IsNotFound err = (err = NotFound)"

text \<open>A run-time panic of Go: the function does not return.\<close>

datatype panic = NilPointerDereference | IndexOutOfRange

section \<open>Strings and paths of the Go library\<close>

definition strings_HasSuffix :: "string \<Rightarrow> string \<Rightarrow> bool" where
  "strings_HasSuffix s suffix =
     (length suffix \<le> length s \<and> drop (length s - length suffix) s = suffix)"

text \<open>\<^verbatim>\<open>%t\<close> and \<^verbatim>\<open>%v\<close> of a \<^verbatim>\<open>bool\<close>.\<close>

definition fmt_bool :: "bool \<Rightarrow> string" where
  "fmt_bool b = (if b then ''true'' else ''false'')"

function digits :: "nat \<Rightarrow> string" where
  "digits n =
     (if n < 10 then [''0123456789'' ! n] else digits (n div 10) @ [''0123456789'' ! (n mod 10)])"
  by pat_completeness auto
termination
  by (relation "measure (\<lambda>n. n)") auto

declare digits.simps [simp del]

text \<open>\<^verbatim>\<open>strconv.Itoa\<close>, and \<^verbatim>\<open>%d\<close> of an integer: the decimal digits, after a minus sign
  for a negative number.\<close>

definition strconv_Itoa :: "int \<Rightarrow> string" where
  "strconv_Itoa i = (if i < 0 then CHR ''-'' # digits (nat (- i)) else digits (nat i))"

text \<open>\<^verbatim>\<open>path.Join\<close> and \<^verbatim>\<open>path.Clean\<close>. \<open>splitPath\<close> cuts a path at every slash;
  \<open>cleanElems\<close> is the loop of \<^verbatim>\<open>Clean\<close> over the elements: an empty element and
  \<^verbatim>\<open>.\<close> are dropped, \<^verbatim>\<open>..\<close> removes the element before it when there is one that is
  not itself a kept \<^verbatim>\<open>..\<close>, is dropped at the root, and is kept at the start of a
  relative path (\<open>dotdot\<close> counts the kept ones).\<close>

fun splitPath :: "string \<Rightarrow> string \<Rightarrow> string list" where
  "splitPath cur [] = [cur]"
| "splitPath cur (c # cs) =
     (if c = CHR ''/'' then cur # splitPath [] cs else splitPath (cur @ [c]) cs)"

fun joinPath :: "string list \<Rightarrow> string" where
  "joinPath [] = []"
| "joinPath [e] = e"
| "joinPath (e # es) = e @ ''/'' @ joinPath es"

fun cleanElems :: "bool \<Rightarrow> string list \<Rightarrow> nat \<Rightarrow> string list \<Rightarrow> string list" where
  "cleanElems rooted out dotdot [] = out"
| "cleanElems rooted out dotdot (e # es) =
     (if e = [] \<or> e = ''.'' then cleanElems rooted out dotdot es
      else if e = ''..'' then
        (if dotdot < length out then cleanElems rooted (butlast out) dotdot es
         else if \<not> rooted then cleanElems rooted (out @ [''..'']) (length out + 1) es
         else cleanElems rooted out dotdot es)
      else cleanElems rooted (out @ [e]) dotdot es)"

definition path_Clean :: "string \<Rightarrow> string" where
  "path_Clean p =
     (if p = [] then ''.''
      else
        let rooted = (hd p = CHR ''/'');
            out = cleanElems rooted [] 0 (splitPath [] p);
            s = (if rooted then ''/'' else []) @ joinPath out
        in if s = [] then ''.'' else s)"

fun joinElems :: "string \<Rightarrow> string list \<Rightarrow> string" where
  "joinElems buf [] = buf"
| "joinElems buf (e # es) =
     (if buf \<noteq> [] \<or> e \<noteq> []
      then joinElems ((if buf \<noteq> [] then buf @ ''/'' else buf) @ e) es
      else joinElems buf es)"

definition path_Join :: "string list \<Rightarrow> string" where
  "path_Join elem = (if concat elem = [] then [] else path_Clean (joinElems [] elem))"

section \<open>Environment derivation\<close>

definition envVar :: "string \<Rightarrow> string \<Rightarrow> EnvVar" where
  "envVar n v = \<lparr>e_Name = n, e_Value = v, e_ValueFrom = None\<rparr>"

text \<open>\<^verbatim>\<open>walRecoveryConfig\<close>, in the two parts of its body: \<open>walBackendEnv\<close> is what the
  chain of \<^verbatim>\<open>if wal.S3 != nil ... else if wal.Local != nil\<close> appends to \<^verbatim>\<open>envList\<close>, and
  \<open>walRecoveryConfig\<close> is the whole function. It panics where the source dereferences
  \<^verbatim>\<open>wal.PITR.TargetInclusive\<close> and the pointer is \<^verbatim>\<open>nil\<close>.\<close>

definition walBackendEnv :: "PostgresWALSourceSpec \<Rightarrow> EnvVar list" where
  "walBackendEnv wal =
     (case S3 wal of
        Some s3 \<Rightarrow>
          [envVar ''RESTORE_S3_PREFIX'' (''s3://'' @ s3_Bucket s3 @ ''/'' @ s3_Prefix s3)]
          @ (if s3_Endpoint s3 \<noteq> [] \<and> \<not> strings_HasSuffix (s3_Endpoint s3) ''.amazonaws.com''
             then [envVar ''RESTORE_S3_ENDPOINT'' (s3_Endpoint s3)] else [])
          @ (if s3_Region s3 \<noteq> [] then [envVar ''RESTORE_S3_REGION'' (s3_Region s3)] else [])
      | None \<Rightarrow>
     (case GCS wal of
        Some gcs \<Rightarrow> [envVar ''RESTORE_GS_PREFIX'' (''gs://'' @ gcs_Bucket gcs @ ''/'' @ gcs_Prefix gcs)]
      | None \<Rightarrow>
     (case Azure wal of
        Some azure \<Rightarrow> [envVar ''RESTORE_AZ_PREFIX'' (''azure://'' @ az_Container azure @ ''/'' @ az_Prefix azure)]
      | None \<Rightarrow>
     (case Swift wal of
        Some swift \<Rightarrow> [envVar ''RESTORE_SWIFT_PREFIX'' (''swift://'' @ sw_Container swift @ ''/'' @ sw_Prefix swift)]
      | None \<Rightarrow>
     (case Local wal of
        Some local \<Rightarrow> [envVar ''RESTORE_FILE_PREFIX'' (path_Join [''/'', MountPath local, SubPath local])]
      | None \<Rightarrow> [])))))"

definition walRecoveryConfig :: "PostgresWALSourceSpec \<Rightarrow> panic + EnvVar list" where
  "walRecoveryConfig wal =
     (let envList = [envVar ''RESTORE'' ''true''] @ walBackendEnv wal
      in case PITR wal of
           None \<Rightarrow> Inr envList
         | Some pitr \<Rightarrow>
             (case TargetInclusive pitr of
                None \<Rightarrow> Inl NilPointerDereference
              | Some targetInclusive \<Rightarrow>
                  Inr (envList
                    @ [envVar ''PITR'' ''true'', envVar ''TARGET_INCLUSIVE'' (fmt_bool targetInclusive)]
                    @ (if TargetTime pitr \<noteq> [] then [envVar ''TARGET_TIME'' (TargetTime pitr)] else [])
                    @ (if TargetTimeline pitr \<noteq> [] then [envVar ''TARGET_TIMELINE'' (TargetTimeline pitr)] else [])
                    @ (if TargetXID pitr \<noteq> [] then [envVar ''TARGET_XID'' (TargetXID pitr)] else []))))"

text \<open>The variables that \<^verbatim>\<open>ensureCombinedNode\<close> appends for a non-nil archiver storage
  (the body of \<^verbatim>\<open>if archiverStorage != nil\<close>).\<close>

definition archiverStorageEnv :: "Api \<Rightarrow> Postgres \<Rightarrow> Backend \<Rightarrow> EnvVar list" where
  "archiverStorageEnv api db archiverStorage =
     [envVar ''ARCHIVE'' ''wal-g'']
     @ (case S3 archiverStorage of
          Some s3 \<Rightarrow>
            [envVar ''ARCHIVE_S3_PREFIX'' (''s3://'' @ s3_Bucket s3 @ ''/'' @ WalDataDir api db)]
            @ (if s3_Endpoint s3 \<noteq> [] \<and> \<not> strings_HasSuffix (s3_Endpoint s3) ''.amazonaws.com''
               then [envVar ''ARCHIVE_S3_ENDPOINT'' (s3_Endpoint s3)] else [])
            @ (if s3_Region s3 \<noteq> [] then [envVar ''ARCHIVE_S3_REGION'' (s3_Region s3)] else [])
        | None \<Rightarrow>
       (case GCS archiverStorage of
          Some gcs \<Rightarrow> [envVar ''ARCHIVE_GS_PREFIX'' (''gs://'' @ gcs_Bucket gcs @ ''/'' @ WalDataDir api db)]
        | None \<Rightarrow>
       (case Azure archiverStorage of
          Some azure \<Rightarrow> [envVar ''ARCHIVE_AZ_PREFIX'' (''azure://'' @ az_Container azure @ ''/'' @ WalDataDir api db)]
        | None \<Rightarrow>
       (case Swift archiverStorage of
          Some swift \<Rightarrow> [envVar ''ARCHIVE_SWIFT_PREFIX'' (''swift://'' @ sw_Container swift @ ''/'' @ WalDataDir api db)]
        | None \<Rightarrow>
       (case Local archiverStorage of
          Some local \<Rightarrow> [envVar ''ARCHIVE_FILE_PREFIX'' (MountPath local)]
        | None \<Rightarrow> [])))))"

text \<open>The \<^verbatim>\<open>envList\<close> that \<^verbatim>\<open>ensureCombinedNode\<close> builds and hands to
  \<^verbatim>\<open>ensureStatefulSet\<close>.\<close>

definition ensureCombinedNode_envList :: "Api \<Rightarrow> Postgres \<Rightarrow> panic + EnvVar list" where
  "ensureCombinedNode_envList api db =
     (let standbyMode = (case StandbyMode (pg_Spec db) of Some m \<Rightarrow> m | None \<Rightarrow> WarmPostgresStandbyMode api);
          streamingMode = (case StreamingMode (pg_Spec db) of Some m \<Rightarrow> m | None \<Rightarrow> AsynchronousPostgresStreamingMode api);
          envList = [envVar ''STANDBY'' (strings_ToLower api standbyMode),
                     envVar ''STREAMING'' (strings_ToLower api streamingMode)];
          envList =
            (case LeaderElection (pg_Spec db) of
               None \<Rightarrow> envList
             | Some le \<Rightarrow>
                 envList @
                 [envVar (LeaseDurationEnv api) (strconv_Itoa (sint (LeaseDurationSeconds le))),
                  envVar (RenewDeadlineEnv api) (strconv_Itoa (sint (RenewDeadlineSeconds le))),
                  envVar (RetryPeriodEnv api) (strconv_Itoa (sint (RetryPeriodSeconds le)))]);
          envList =
            (case Archiver (pg_Spec db) of
               None \<Rightarrow> envList
             | Some archiver \<Rightarrow>
                 (case arch_Storage archiver of
                    None \<Rightarrow> envList
                  | Some archiverStorage \<Rightarrow> envList @ archiverStorageEnv api db archiverStorage))
      in case Init (pg_Spec db) of
           None \<Rightarrow> Inr envList
         | Some init \<Rightarrow>
             (case PostgresWAL init of
                None \<Rightarrow> Inr envList
              | Some wal \<Rightarrow>
                  (case walRecoveryConfig wal of
                     Inl p \<Rightarrow> Inl p
                   | Inr walEnv \<Rightarrow> Inr (envList @ walEnv))))"


section \<open>Upsert primitives\<close>

text \<open>Modelled from the spec: \<^verbatim>\<open>UpsertEnvVars\<close>, \<^verbatim>\<open>UpsertVolume\<close>, \<^verbatim>\<open>UpsertVolumeMount\<close>,
  \<^verbatim>\<open>UpsertContainer\<close>, \<^verbatim>\<open>UpsertContainers\<close>, \<^verbatim>\<open>UpsertVolumeClaim\<close> and
  \<^verbatim>\<open>EnsureOwnerReference\<close> are functions of \<^verbatim>\<open>kmodules.xyz/client-go\<close>, not in the source
  files. The spec's UpsertByName: ``if an item with the same key exists, replace it in place
  (preserving position); otherwise append''. The key is the item's name (the owner's UID for
  an owner reference).\<close>

fun UpsertByName :: "('a \<Rightarrow> string) \<Rightarrow> 'a list \<Rightarrow> 'a \<Rightarrow> 'a list" where
  "UpsertByName keyOf [] item = [item]"
| "UpsertByName keyOf (x # xs) item =
     (if keyOf x = keyOf item then item # xs else x # UpsertByName keyOf xs item)"

definition UpsertEnvVars :: "EnvVar list \<Rightarrow> EnvVar list \<Rightarrow> EnvVar list" where
  "UpsertEnvVars vars nv = foldl (UpsertByName e_Name) vars nv"

definition UpsertVolume :: "Volume list \<Rightarrow> Volume \<Rightarrow> Volume list" where
  "UpsertVolume volumes nv = UpsertByName v_Name volumes nv"

definition UpsertVolumeMount :: "VolumeMount list \<Rightarrow> VolumeMount \<Rightarrow> VolumeMount list" where
  "UpsertVolumeMount mounts nv = UpsertByName m_Name mounts nv"

definition UpsertContainer :: "Container list \<Rightarrow> Container \<Rightarrow> Container list" where
  "UpsertContainer containers upsert = UpsertByName c_Name containers upsert"

definition UpsertContainers :: "Container list \<Rightarrow> Container list \<Rightarrow> Container list" where
  "UpsertContainers containers addons = foldl UpsertContainer containers addons"

definition UpsertVolumeClaim ::
  "PersistentVolumeClaim list \<Rightarrow> PersistentVolumeClaim \<Rightarrow> PersistentVolumeClaim list" where
  "UpsertVolumeClaim volumeClaims upsert = UpsertByName Name volumeClaims upsert"

definition EnsureOwnerReference ::
  "OwnerReference \<Rightarrow> 'a ObjectMeta_scheme \<Rightarrow> 'a ObjectMeta_scheme" where
  "EnsureOwnerReference owner meta =
     meta\<lparr>OwnerReferences := UpsertByName or_UID (OwnerReferences meta) owner\<rparr>"

text \<open>\<^verbatim>\<open>metav1.NewControllerRef(db, api.SchemeGroupVersion.WithKind(api.ResourceKindPostgres))\<close>.\<close>

definition NewControllerRef :: "Api \<Rightarrow> Postgres \<Rightarrow> OwnerReference" where
  "NewControllerRef api db =
     \<lparr>or_APIVersion = SchemeGroupVersion api, or_Kind = ResourceKindPostgres api,
      or_Name = Name db, or_UID = UID db,
      or_Controller = Some True, or_BlockOwnerDeletion = Some True\<rparr>"

text \<open>\<^verbatim>\<open>kmapi.HasCondition\<close>: a condition of that type is in the list.\<close>

definition HasCondition :: "Condition list \<Rightarrow> string \<Rightarrow> bool" where
  "HasCondition conditions condType = list_ex (\<lambda>c. cond_Type c = condType) conditions"

section \<open>Constants of the Kubernetes API\<close>

definition BasicAuthUsernameKey :: string where "BasicAuthUsernameKey = ''username''"
definition BasicAuthPasswordKey :: string where "BasicAuthPasswordKey = ''password''"
definition ProtocolTCP :: string where "ProtocolTCP = ''TCP''"
definition PullIfNotPresent :: string where "PullIfNotPresent = ''IfNotPresent''"
definition StorageMediumMemory :: string where "StorageMediumMemory = ''Memory''"
definition ReadWriteOnce :: string where "ReadWriteOnce = ''ReadWriteOnce''"
definition ResourceStorage :: string where "ResourceStorage = ''storage''"
definition OnDeleteStatefulSetStrategyType :: string where "OnDeleteStatefulSetStrategyType = ''OnDelete''"
definition ServiceTypeClusterIP :: string where "ServiceTypeClusterIP = ''ClusterIP''"
definition ClusterIPNone :: string where "ClusterIPNone = ''None''"
definition EventTypeNormal :: string where "EventTypeNormal = ''Normal''"

section \<open>The StatefulSet's pod template\<close>

text \<open>Reading and writing \<^verbatim>\<open>statefulSet.Spec.Template.Spec\<close> and one container of it.\<close>

definition podSpec :: "StatefulSet \<Rightarrow> PodSpec" where
  "podSpec statefulSet = t_Spec (Template (sts_Spec statefulSet))"

definition withPodSpec :: "(PodSpec \<Rightarrow> PodSpec) \<Rightarrow> StatefulSet \<Rightarrow> StatefulSet" where
  "withPodSpec f statefulSet =
     statefulSet\<lparr>sts_Spec := (sts_Spec statefulSet)
       \<lparr>Template := (Template (sts_Spec statefulSet))
         \<lparr>t_Spec := f (t_Spec (Template (sts_Spec statefulSet)))\<rparr>\<rparr>\<rparr>"

definition withContainer :: "nat \<Rightarrow> (Container \<Rightarrow> Container) \<Rightarrow> StatefulSet \<Rightarrow> StatefulSet" where
  "withContainer i f statefulSet =
     withPodSpec (\<lambda>p. p\<lparr>Containers := (Containers p)[i := f (Containers p ! i)]\<rparr>) statefulSet"

text \<open>The loop \<^verbatim>\<open>for i, container := range ...Containers\<close> with
  \<^verbatim>\<open>if container.Name == name\<close>: the index of the first container of that name.\<close>

fun findContainer :: "string \<Rightarrow> Container list \<Rightarrow> nat option" where
  "findContainer name [] = None"
| "findContainer name (container # rest) =
     (if c_Name container = name then Some 0 else map_option Suc (findContainer name rest))"

text \<open>The body shared by \<^verbatim>\<open>upsertArchiveSecret\<close>, \<^verbatim>\<open>upsertInitWalSecret\<close>, \<^verbatim>\<open>upsertShm\<close>,
  \<^verbatim>\<open>upsertInitScript\<close> and \<^verbatim>\<open>upsertCustomConfig\<close>: in the first container named
  \<^verbatim>\<open>postgres\<close>, upsert the mount; then upsert the volume of the pod.\<close>

definition upsertMountAndVolume :: "Api \<Rightarrow> VolumeMount \<Rightarrow> Volume \<Rightarrow> StatefulSet \<Rightarrow> StatefulSet" where
  "upsertMountAndVolume api volumeMount volume statefulSet =
     (case findContainer (ResourceSingularPostgres api) (Containers (podSpec statefulSet)) of
        None \<Rightarrow> statefulSet
      | Some i \<Rightarrow>
          withPodSpec (\<lambda>p. p\<lparr>Volumes := UpsertVolume (Volumes p) volume\<rparr>)
            (withContainer i
               (\<lambda>container. container\<lparr>c_VolumeMounts := UpsertVolumeMount (c_VolumeMounts container) volumeMount\<rparr>)
               statefulSet))"

definition secretVolume :: "string \<Rightarrow> string \<Rightarrow> Volume" where
  "secretVolume name secretName =
     \<lparr>v_Name = name,
      v_VolumeSource = \<lparr>HostPath = None, EmptyDir = None,
        Secret = Some \<lparr>SecretName = secretName\<rparr>, PersistentVolumeClaim = None\<rparr>\<rparr>"

definition emptyDirVolume :: "string \<Rightarrow> EmptyDirVolumeSource \<Rightarrow> Volume" where
  "emptyDirVolume name ed =
     \<lparr>v_Name = name,
      v_VolumeSource = \<lparr>HostPath = None, EmptyDir = Some ed, Secret = None,
        PersistentVolumeClaim = None\<rparr>\<rparr>"

definition upsertArchiveSecret :: "Api \<Rightarrow> StatefulSet \<Rightarrow> string \<Rightarrow> StatefulSet" where
  "upsertArchiveSecret api statefulSet secretName =
     upsertMountAndVolume api
       \<lparr>m_Name = ''wal-g-archive'', m_MountPath = ''/srv/wal-g/archive/secrets''\<rparr>
       (secretVolume ''wal-g-archive'' secretName) statefulSet"

definition upsertInitWalSecret :: "Api \<Rightarrow> StatefulSet \<Rightarrow> string \<Rightarrow> StatefulSet" where
  "upsertInitWalSecret api statefulSet secretName =
     upsertMountAndVolume api
       \<lparr>m_Name = ''wal-g-restore'', m_MountPath = ''/srv/wal-g/restore/secrets''\<rparr>
       (secretVolume ''wal-g-restore'' secretName) statefulSet"

definition upsertShm :: "Api \<Rightarrow> StatefulSet \<Rightarrow> StatefulSet" where
  "upsertShm api statefulSet =
     upsertMountAndVolume api
       \<lparr>m_Name = ''shared-memory'', m_MountPath = ''/dev/shm''\<rparr>
       (emptyDirVolume ''shared-memory'' \<lparr>Medium = StorageMediumMemory, SizeLimit = None\<rparr>) statefulSet"

definition upsertInitScript :: "Api \<Rightarrow> StatefulSet \<Rightarrow> VolumeSource \<Rightarrow> StatefulSet" where
  "upsertInitScript api statefulSet script =
     upsertMountAndVolume api
       \<lparr>m_Name = ''initial-script'', m_MountPath = ''/var/initdb''\<rparr>
       \<lparr>v_Name = ''initial-script'', v_VolumeSource = script\<rparr> statefulSet"

definition upsertCustomConfig :: "Api \<Rightarrow> StatefulSet \<Rightarrow> Postgres \<Rightarrow> StatefulSet" where
  "upsertCustomConfig api statefulSet db =
     (case ConfigSecret (pg_Spec db) of
        None \<Rightarrow> statefulSet
      | Some configSecret \<Rightarrow>
          upsertMountAndVolume api
            \<lparr>m_Name = ''custom-config'', m_MountPath = ''/etc/config''\<rparr>
            (secretVolume ''custom-config'' (lor_Name configSecret)) statefulSet)"

definition secretEnv :: "string \<Rightarrow> string \<Rightarrow> string \<Rightarrow> EnvVar" where
  "secretEnv n secretName key =
     \<lparr>e_Name = n, e_Value = [],
      e_ValueFrom = Some \<lparr>FieldRef = None,
        SecretKeyRef = Some \<lparr>LocalObjectReference_Name = secretName, Key = key\<rparr>\<rparr>\<rparr>"

definition upsertEnv :: "Api \<Rightarrow> StatefulSet \<Rightarrow> Postgres \<Rightarrow> EnvVar list \<Rightarrow> StatefulSet" where
  "upsertEnv api statefulSet db envs =
     (let envList =
            [\<lparr>e_Name = ''NAMESPACE'', e_Value = [],
              e_ValueFrom = Some \<lparr>FieldRef = Some \<lparr>FieldPath = ''metadata.namespace''\<rparr>,
                                  SecretKeyRef = None\<rparr>\<rparr>,
             envVar ''PRIMARY_HOST'' (db_ServiceName api db),
             secretEnv (EnvPostgresUser api) (lor_Name (AuthSecret (pg_Spec db))) BasicAuthUsernameKey,
             secretEnv (EnvPostgresPassword api) (lor_Name (AuthSecret (pg_Spec db))) BasicAuthPasswordKey]
            @ envs
      in case findContainer (ResourceSingularPostgres api) (Containers (podSpec statefulSet)) of
           None \<Rightarrow> statefulSet
         | Some i \<Rightarrow>
             withContainer i
               (\<lambda>container. container\<lparr>c_Env := UpsertEnvVars (c_Env container) envList\<rparr>)
               statefulSet)"

definition upsertUserEnv :: "Api \<Rightarrow> StatefulSet \<Rightarrow> Postgres \<Rightarrow> StatefulSet" where
  "upsertUserEnv api statefulSet postgress =
     (case findContainer (ResourceSingularPostgres api) (Containers (podSpec statefulSet)) of
        None \<Rightarrow> statefulSet
      | Some i \<Rightarrow>
          withContainer i
            (\<lambda>container. container
               \<lparr>c_Env := UpsertEnvVars (c_Env container) (o_Env (pt_Spec (PodTemplate (pg_Spec postgress))))\<rparr>)
            statefulSet)"

definition upsertMonitoringContainer ::
  "Api \<Rightarrow> StatefulSet \<Rightarrow> Postgres \<Rightarrow> PostgresVersion \<Rightarrow> StatefulSet" where
  "upsertMonitoringContainer api statefulSet db postgresVersion =
     (case Monitor (pg_Spec db) of
        None \<Rightarrow> statefulSet
      | Some monitor \<Rightarrow>
          if Vendor api (Agent monitor) = VendorPrometheus api then
            let exporter = Exporter (Prometheus monitor);
                container =
                  \<lparr>c_Name = ''exporter'',
                   c_Image = pv_Exporter_Image postgresVersion,
                   c_Args = [''--log.level=info''] @ exp_Args exporter,
                   c_Ports = [\<lparr>cp_Name = PrometheusExporterPortName api,
                               ContainerPort = exp_Port exporter, cp_Protocol = ProtocolTCP\<rparr>],
                   c_Env = exp_Env exporter,
                   c_Resources = exp_Resources exporter,
                   c_VolumeMounts = [],
                   c_LivenessProbe = None, c_ReadinessProbe = None, c_Lifecycle = None,
                   c_ImagePullPolicy = PullIfNotPresent,
                   c_SecurityContext = exp_SecurityContext exporter\<rparr>;
                envList =
                  [envVar ''DATA_SOURCE_URI''
                     (''localhost:'' @ strconv_Itoa (sint (PostgresDatabasePort api)) @ ''/?sslmode=disable''),
                   secretEnv ''DATA_SOURCE_USER'' (lor_Name (AuthSecret (pg_Spec db))) BasicAuthUsernameKey,
                   secretEnv ''DATA_SOURCE_PASS'' (lor_Name (AuthSecret (pg_Spec db))) BasicAuthPasswordKey,
                   envVar ''PG_EXPORTER_WEB_LISTEN_ADDRESS'' ('':'' @ strconv_Itoa (sint (exp_Port exporter))),
                   envVar ''PG_EXPORTER_WEB_TELEMETRY_PATH'' (StatsService_Path api db)];
                container = container\<lparr>c_Env := UpsertEnvVars (c_Env container) envList\<rparr>
            in withPodSpec (\<lambda>p. p\<lparr>Containers := UpsertContainer (Containers p) container\<rparr>) statefulSet
          else statefulSet)"


text \<open>\<^verbatim>\<open>upsertDataVolume\<close>. \<open>appendLocalVolume\<close> is the block the function has twice, for the
  archiver's local volume (\<^verbatim>\<open>local-archive\<close>) and for the local volume of the restore source
  (\<^verbatim>\<open>local-init\<close>): it appends the volume to the pod's volumes and the mount to the mounts
  of \<^verbatim>\<open>Containers[0]\<close>, with \<^verbatim>\<open>append\<close>, and panics when the pod has no container.
  In the persistent branch the function writes the default access mode into
  \<^verbatim>\<open>db.Spec.Storage\<close>, which the caller sees: the database object is returned with the
  StatefulSet. It panics where \<^verbatim>\<open>db.Spec.Storage\<close> is \<^verbatim>\<open>nil\<close> in that branch.\<close>

definition appendLocalVolume :: "string \<Rightarrow> LocalSpec \<Rightarrow> StatefulSet \<Rightarrow> panic + StatefulSet" where
  "appendLocalVolume name pgLocalVol statefulSet =
     (let podSpec0 = podSpec statefulSet;
          volume = \<lparr>v_Name = name, v_VolumeSource = l_VolumeSource pgLocalVol\<rparr>;
          statefulSet = withPodSpec (\<lambda>p. p\<lparr>Volumes := Volumes podSpec0 @ [volume]\<rparr>) statefulSet
      in case Containers podSpec0 of
           [] \<Rightarrow> Inl IndexOutOfRange
         | container0 # _ \<Rightarrow>
             Inr (withContainer 0
                   (\<lambda>c. c\<lparr>c_VolumeMounts := c_VolumeMounts container0
                            @ [\<lparr>m_Name = name, m_MountPath = MountPath pgLocalVol\<rparr>]\<rparr>)
                   statefulSet))"

definition archiverLocal :: "Postgres \<Rightarrow> LocalSpec option" where
  "archiverLocal db =
     (case Archiver (pg_Spec db) of
        None \<Rightarrow> None
      | Some archiver \<Rightarrow> (case arch_Storage archiver of None \<Rightarrow> None | Some storage \<Rightarrow> Local storage))"

definition initLocal :: "Postgres \<Rightarrow> LocalSpec option" where
  "initLocal db =
     (case Init (pg_Spec db) of
        None \<Rightarrow> None
      | Some init \<Rightarrow> (case PostgresWAL init of None \<Rightarrow> None | Some wal \<Rightarrow> Local wal))"

definition upsertLocalVolumes :: "StatefulSet \<Rightarrow> Postgres \<Rightarrow> panic + StatefulSet" where
  "upsertLocalVolumes statefulSet db =
     (if Archiver (pg_Spec db) \<noteq> None \<or> Init (pg_Spec db) \<noteq> None then
        (case (case archiverLocal db of
                 None \<Rightarrow> Inr statefulSet
               | Some pgLocalVol \<Rightarrow> appendLocalVolume ''local-archive'' pgLocalVol statefulSet) of
           Inl p \<Rightarrow> Inl p
         | Inr statefulSet \<Rightarrow>
             (case initLocal db of
                None \<Rightarrow> Inr statefulSet
              | Some pgLocalVol \<Rightarrow> appendLocalVolume ''local-init'' pgLocalVol statefulSet))
      else Inr statefulSet)"

definition dataClaim :: "PersistentVolumeClaimSpec \<Rightarrow> PersistentVolumeClaim" where
  "dataClaim pvcSpec =
     \<lparr>Name = ''data'', Namespace = [], UID = [], Labels = Map.empty,
      Annotations =
        (case StorageClassName pvcSpec of
           None \<Rightarrow> Map.empty
         | Some storageClassName \<Rightarrow> [''volume.beta.kubernetes.io/storage-class'' \<mapsto> storageClassName]),
      OwnerReferences = [],
      pvc_Spec = pvcSpec\<rparr>"

definition upsertDataVolume :: "Api \<Rightarrow> StatefulSet \<Rightarrow> Postgres \<Rightarrow> panic + (StatefulSet \<times> Postgres)" where
  "upsertDataVolume api statefulSet db =
     (case upsertLocalVolumes statefulSet db of
        Inl p \<Rightarrow> Inl p
      | Inr statefulSet \<Rightarrow>
          (case findContainer (ResourceSingularPostgres api) (Containers (podSpec statefulSet)) of
             None \<Rightarrow> Inr (statefulSet, db)
           | Some i \<Rightarrow>
               let statefulSet =
                     withContainer i
                       (\<lambda>container. container\<lparr>c_VolumeMounts :=
                          UpsertVolumeMount (c_VolumeMounts container)
                            \<lparr>m_Name = ''data'', m_MountPath = ''/var/pv''\<rparr>\<rparr>)
                       statefulSet;
                   pvcSpec = Storage (pg_Spec db)
               in if StorageType (pg_Spec db) = StorageTypeEphemeral api then
                    let ed = \<lparr>Medium = [],
                              SizeLimit = (case pvcSpec of
                                             None \<Rightarrow> None
                                           | Some pvc \<Rightarrow> Requests (pvc_Resources pvc) ResourceStorage)\<rparr>
                    in Inr (withPodSpec
                              (\<lambda>p. p\<lparr>Volumes := UpsertVolume (Volumes p) (emptyDirVolume ''data'' ed)\<rparr>)
                              statefulSet,
                            db)
                  else
                    (case pvcSpec of
                       None \<Rightarrow> Inl NilPointerDereference
                     | Some pvc \<Rightarrow>
                         let pvc = (if length (AccessModes pvc) = 0
                                    then pvc\<lparr>AccessModes := [ReadWriteOnce]\<rparr> else pvc);
                             db = db\<lparr>pg_Spec := (pg_Spec db)\<lparr>Storage := Some pvc\<rparr>\<rparr>;
                             claim = dataClaim pvc
                         in Inr (statefulSet\<lparr>sts_Spec := (sts_Spec statefulSet)
                                   \<lparr>VolumeClaimTemplates :=
                                      UpsertVolumeClaim (VolumeClaimTemplates (sts_Spec statefulSet)) claim\<rparr>\<rparr>,
                                 db))))"

section \<open>The controller and the control-plane client\<close>

record Event =
  ev_Object :: string
  ev_Type :: string
  ev_Reason :: string
  ev_Message :: string

text \<open>The \<^verbatim>\<open>Controller\<close>: its client (the state of the control plane as the client sees
  it), the events its recorder has been given, and the options the StatefulSet's
  container arguments are made from (\<open>LoggerOptions_ToFlags\<close> is the list that
  \<^verbatim>\<open>c.LoggerOptions.ToFlags()\<close> returns).\<close>

record 'c Controller =
  Client :: 'c
  Recorder :: "Event list"
  EnableAnalytics :: bool
  LoggerOptions_ToFlags :: "string list"
  AnalyticsClientID :: string

text \<open>The calls to the control plane, which the spec treats as an external collaborator known
  by its interface. They are parameters: a function below takes a record of them, over any
  type \<open>'c\<close> of client states. A call that may write returns the new client state; a read
  does not. A create-or-patch call takes the mutator and returns the object and the outcome,
  or the error; the StatefulSet mutator can panic, and then the call does.\<close>

record 'c Kube =
  StatefulSets_Get :: "'c \<Rightarrow> string \<Rightarrow> string \<Rightarrow> error + StatefulSet"
  CreateOrPatchService ::
    "'c \<Rightarrow> ObjectMeta \<Rightarrow> (Service \<Rightarrow> Service) \<Rightarrow> 'c \<times> (error + Service \<times> VerbType)"
  CreateOrPatchStatefulSet ::
    "'c \<Rightarrow> ObjectMeta \<Rightarrow> (StatefulSet \<Rightarrow> panic + StatefulSet)
       \<Rightarrow> panic + 'c \<times> (error + StatefulSet \<times> VerbType)"
  WaitUntilPodRunningBySelector :: "'c \<Rightarrow> string \<Rightarrow> LabelSelector option \<Rightarrow> int \<Rightarrow> error option"
  CreateStatefulSetPodDisruptionBudget :: "'c \<Rightarrow> StatefulSet \<Rightarrow> 'c \<times> error option"

definition Eventf :: "Api \<Rightarrow> Postgres \<Rightarrow> string \<Rightarrow> 'c Controller \<Rightarrow> 'c Controller" where
  "Eventf api db message c =
     c\<lparr>Recorder := Recorder c @
         [\<lparr>ev_Object = Name db, ev_Type = EventTypeNormal,
           ev_Reason = EventReasonSuccessful api, ev_Message = message\<rparr>]\<rparr>"

definition objectMeta :: "string \<Rightarrow> string \<Rightarrow> ObjectMeta" where
  "objectMeta name namespace =
     \<lparr>Name = name, Namespace = namespace, UID = [], Labels = Map.empty,
      Annotations = Map.empty, OwnerReferences = []\<rparr>"


section \<open>Services\<close>

text \<open>\<^verbatim>\<open>ensureGoverningService\<close>.\<close>

definition governingServiceMutator :: "Api \<Rightarrow> Postgres \<Rightarrow> OwnerReference \<Rightarrow> Service \<Rightarrow> Service" where
  "governingServiceMutator api db owner in' =
     (let in' = EnsureOwnerReference owner in';
          in' = in'\<lparr>Labels := OffshootLabels api db\<rparr>
      in in'\<lparr>svc_Spec := (svc_Spec in')
           \<lparr>svc_Type := ServiceTypeClusterIP,
            svc_ClusterIP := ClusterIPNone,
            svc_Selector := OffshootSelectors api db,
            PublishNotReadyAddresses := True\<rparr>\<rparr>)"

definition ensureGoverningService ::
  "Api \<Rightarrow> 'c Kube \<Rightarrow> 'c Controller \<Rightarrow> Postgres \<Rightarrow> 'c Controller \<times> error option" where
  "ensureGoverningService api K c db =
     (let meta = objectMeta (GoverningServiceName api db) (Namespace db);
          owner = NewControllerRef api db
      in case CreateOrPatchService K (Client c) meta (governingServiceMutator api db owner) of
           (cl, Inl err) \<Rightarrow> (c\<lparr>Client := cl\<rparr>, Some err)
         | (cl, Inr (_, vt)) \<Rightarrow>
             (if vt = VerbCreated \<or> vt = VerbPatched
              then Eventf api db (''Successfully '' @ verbString vt @ '' governing service'') (c\<lparr>Client := cl\<rparr>)
              else c\<lparr>Client := cl\<rparr>,
              None))"

text \<open>The mutators of \<^verbatim>\<open>ensurePrimaryService\<close> and \<^verbatim>\<open>ensureStandbyService\<close> are the same
  text but for the service template they read (\<^verbatim>\<open>ServiceTemplate\<close> or
  \<^verbatim>\<open>ReplicaServiceTemplate\<close>), the role they select and the name of the port:
  \<open>serviceMutator\<close> takes the three.\<close>

definition serviceMutator ::
  "Api \<Rightarrow> Postgres \<Rightarrow> OwnerReference \<Rightarrow> ServiceTemplateSpec \<Rightarrow> string \<Rightarrow> string \<Rightarrow> Service \<Rightarrow> Service" where
  "serviceMutator api db owner template role portName in' =
     (let in' = EnsureOwnerReference owner in';
          in' = in'\<lparr>Labels := OffshootLabels api db, Annotations := st_Annotations template\<rparr>;
          tspec = st_Spec template;
          spec = svc_Spec in';
          spec = spec\<lparr>svc_Selector := (OffshootSelectors api db)(PostgresLabelRole api \<mapsto> role)\<rparr>;
          spec = spec\<lparr>svc_Ports :=
                   ofst_MergeServicePorts api
                     (core_MergeServicePorts api (svc_Ports spec)
                        [\<lparr>sp_Name = portName, sp_Protocol = [], sp_Port = PostgresDatabasePort api,
                          sp_TargetPort = FromString (PostgresDatabasePortName api), sp_NodePort = 0\<rparr>])
                     (os_Ports tspec)\<rparr>;
          spec = (if os_ClusterIP tspec \<noteq> [] then spec\<lparr>svc_ClusterIP := os_ClusterIP tspec\<rparr> else spec);
          spec = (if os_Type tspec \<noteq> [] then spec\<lparr>svc_Type := os_Type tspec\<rparr> else spec);
          spec = spec\<lparr>svc_ExternalIPs := os_ExternalIPs tspec,
                      svc_LoadBalancerIP := os_LoadBalancerIP tspec,
                      svc_LoadBalancerSourceRanges := os_LoadBalancerSourceRanges tspec,
                      svc_ExternalTrafficPolicy := os_ExternalTrafficPolicy tspec\<rparr>;
          spec = (if 0 < sint (os_HealthCheckNodePort tspec)
                  then spec\<lparr>svc_HealthCheckNodePort := os_HealthCheckNodePort tspec\<rparr> else spec)
      in in'\<lparr>svc_Spec := spec\<rparr>)"

text \<open>What \<^verbatim>\<open>ensurePrimaryService\<close>, \<^verbatim>\<open>ensureStandbyService\<close> return: the pair
  \<^verbatim>\<open>(ok, err)\<close> of the create-or-patch call.\<close>

definition verbAndError :: "error + Service \<times> VerbType \<Rightarrow> VerbType \<times> error option" where
  "verbAndError r = (case r of Inl err \<Rightarrow> (VerbUnchanged, Some err) | Inr (_, ok) \<Rightarrow> (ok, None))"

definition ensurePrimaryService ::
  "Api \<Rightarrow> 'c Kube \<Rightarrow> 'c Controller \<Rightarrow> Postgres \<Rightarrow> 'c Controller \<times> VerbType \<times> error option" where
  "ensurePrimaryService api K c db =
     (let meta = objectMeta (OffshootName api db) (Namespace db);
          owner = NewControllerRef api db
      in case CreateOrPatchService K (Client c) meta
                (serviceMutator api db owner (ServiceTemplate (pg_Spec db))
                   (PostgresPodPrimary api) (PostgresPrimaryServicePortName api)) of
           (cl, r) \<Rightarrow> (c\<lparr>Client := cl\<rparr>, verbAndError r))"

definition ensureStandbyService ::
  "Api \<Rightarrow> 'c Kube \<Rightarrow> 'c Controller \<Rightarrow> Postgres \<Rightarrow> 'c Controller \<times> VerbType \<times> error option" where
  "ensureStandbyService api K c db =
     (let meta = objectMeta (StandbyServiceName api db) (Namespace db);
          owner = NewControllerRef api db
      in case CreateOrPatchService K (Client c) meta
                (serviceMutator api db owner (ReplicaServiceTemplate (pg_Spec db))
                   (PostgresPodStandby api) (PostgresStandbyServicePortName api)) of
           (cl, r) \<Rightarrow> (c\<lparr>Client := cl\<rparr>, verbAndError r))"

text \<open>\<^verbatim>\<open>ensureService\<close>. The result is the controller after the calls, and the pair
  \<^verbatim>\<open>(kutil.VerbType, error)\<close> the function returns.\<close>

definition ensureService ::
  "Api \<Rightarrow> 'c Kube \<Rightarrow> 'c Controller \<Rightarrow> Postgres \<Rightarrow> 'c Controller \<times> VerbType \<times> error option" where
  "ensureService api K c db =
     (case ensurePrimaryService api K c db of
        (c, vt1, Some err) \<Rightarrow> (c, VerbUnchanged, Some err)
      | (c, vt1, None) \<Rightarrow>
          let c = (if vt1 \<noteq> VerbUnchanged
                   then Eventf api db (''Successfully '' @ verbString vt1 @ '' Service'') c else c);
              vt2 = VerbUnchanged;
              replicas = (case Replicas (pg_Spec db) of None \<Rightarrow> 1 | Some r \<Rightarrow> r)
          in (case (if 1 < sint replicas then ensureStandbyService api K c db else (c, vt2, None)) of
                (c, vt2, Some err) \<Rightarrow> (c, VerbUnchanged, Some err)
              | (c, vt2, None) \<Rightarrow>
                  let c = (if 1 < sint replicas \<and> vt2 \<noteq> VerbUnchanged
                           then Eventf api db (''Successfully '' @ verbString vt2 @ '' Service'') c else c)
                  in if vt1 = VerbCreated \<and> vt2 = VerbCreated then (c, VerbCreated, None)
                     else if vt1 = VerbPatched \<or> vt2 = VerbPatched then (c, VerbPatched, None)
                     else (c, VerbUnchanged, None)))"

text \<open>\<^verbatim>\<open>ensureStatsService\<close>.\<close>

definition statsServiceMutator :: "Api \<Rightarrow> Postgres \<Rightarrow> AgentSpec \<Rightarrow> OwnerReference \<Rightarrow> Service \<Rightarrow> Service" where
  "statsServiceMutator api db monitor owner in' =
     (let in' = EnsureOwnerReference owner in';
          in' = in'\<lparr>Labels := StatsServiceLabels api db\<rparr>
      in in'\<lparr>svc_Spec := (svc_Spec in')
           \<lparr>svc_Selector := OffshootSelectors api db,
            svc_Ports := core_MergeServicePorts api (svc_Ports (svc_Spec in'))
              [\<lparr>sp_Name = PrometheusExporterPortName api, sp_Protocol = ProtocolTCP,
                sp_Port = exp_Port (Exporter (Prometheus monitor)),
                sp_TargetPort = FromString (PrometheusExporterPortName api), sp_NodePort = 0\<rparr>]\<rparr>\<rparr>)"

definition ensureStatsService ::
  "Api \<Rightarrow> 'c Kube \<Rightarrow> 'c Controller \<Rightarrow> Postgres \<Rightarrow> 'c Controller \<times> VerbType \<times> error option" where
  "ensureStatsService api K c db =
     (case Monitor (pg_Spec db) of
        None \<Rightarrow> (c, VerbUnchanged, None)
      | Some monitor \<Rightarrow>
          if Vendor api (Agent monitor) \<noteq> VendorPrometheus api then (c, VerbUnchanged, None)
          else
            let owner = NewControllerRef api db;
                meta = objectMeta (StatsService_ServiceName api db) (Namespace db)
            in (case CreateOrPatchService K (Client c) meta (statsServiceMutator api db monitor owner) of
                  (cl, Inl err) \<Rightarrow> (c\<lparr>Client := cl\<rparr>, VerbUnchanged, Some err)
                | (cl, Inr (_, vt)) \<Rightarrow>
                    (if vt \<noteq> VerbUnchanged
                     then Eventf api db (''Successfully '' @ verbString vt @ '' stats service'') (c\<lparr>Client := cl\<rparr>)
                     else c\<lparr>Client := cl\<rparr>,
                     vt, None)))"


section \<open>The StatefulSet\<close>

text \<open>\<^verbatim>\<open>checkStatefulSet\<close>. Reading a Go map at a key it does not have gives the empty
  string.\<close>

definition labelOf :: "labels \<Rightarrow> string \<Rightarrow> string" where
  "labelOf m k = (case m k of None \<Rightarrow> [] | Some v \<Rightarrow> v)"

definition checkStatefulSet :: "Api \<Rightarrow> 'c Kube \<Rightarrow> 'c Controller \<Rightarrow> Postgres \<Rightarrow> error option" where
  "checkStatefulSet api K c db =
     (let name = OffshootName api db
      in case StatefulSets_Get K (Client c) (Namespace db) name of
           Inl err \<Rightarrow> (if IsNotFound err then None else Some err)
         | Inr statefulSet \<Rightarrow>
             if labelOf (Labels statefulSet) (LabelDatabaseKind api) \<noteq> ResourceKindPostgres api
                \<or> labelOf (Labels statefulSet) (LabelDatabaseName api) \<noteq> name
             then Some (Errorf (''intended statefulSet '' @ [CHR 0x22] @ Namespace db @ ''/'' @ name
                                @ [CHR 0x22] @ '' already exists''))
             else None)"

definition CheckStatefulSetPodStatus :: "'c Kube \<Rightarrow> 'c Controller \<Rightarrow> StatefulSet \<Rightarrow> error option" where
  "CheckStatefulSetPodStatus K c statefulSet =
     WaitUntilPodRunningBySelector K (Client c) (Namespace statefulSet)
       (ss_Selector (sts_Spec statefulSet))
       (sint (case ss_Replicas (sts_Spec statefulSet) of None \<Rightarrow> 0 | Some r \<Rightarrow> r))"

text \<open>The container \<^verbatim>\<open>ensureStatefulSet\<close> upserts for the database process.\<close>

definition postgresContainer :: "Api \<Rightarrow> 'c Controller \<Rightarrow> Postgres \<Rightarrow> PostgresVersion \<Rightarrow> Container" where
  "postgresContainer api c db postgresVersion =
     \<lparr>c_Name = ResourceSingularPostgres api,
      c_Image = pv_DB_Image postgresVersion,
      c_Args = [''leader_election'', ''--enable-analytics='' @ fmt_bool (EnableAnalytics c)]
               @ LoggerOptions_ToFlags c,
      c_Ports = [\<lparr>cp_Name = PostgresDatabasePortName api,
                  ContainerPort = PostgresDatabasePort api, cp_Protocol = ProtocolTCP\<rparr>],
      c_Env = [envVar (analytics_Key api) (AnalyticsClientID c)],
      c_Resources = o_Resources (pt_Spec (PodTemplate (pg_Spec db))),
      c_VolumeMounts = [],
      c_LivenessProbe = o_LivenessProbe (pt_Spec (PodTemplate (pg_Spec db))),
      c_ReadinessProbe = o_ReadinessProbe (pt_Spec (PodTemplate (pg_Spec db))),
      c_Lifecycle = o_Lifecycle (pt_Spec (PodTemplate (pg_Spec db))),
      c_ImagePullPolicy = [],
      c_SecurityContext =
        Some \<lparr>Privileged = Some False,
              Capabilities = Some \<lparr>Add = [''IPC_LOCK'', ''SYS_RESOURCE''], Drop = []\<rparr>\<rparr>\<rparr>"

text \<open>The mutator that \<^verbatim>\<open>ensureStatefulSet\<close> hands to \<^verbatim>\<open>CreateOrPatchStatefulSet\<close>
  (the function literal \<^verbatim>\<open>func(in *apps.StatefulSet) *apps.StatefulSet\<close>), with what it
  captures as arguments. Its statements are grouped in the order of the source:
  \<open>setIdentity\<close> is the assignments from \<^verbatim>\<open>in.Labels\<close> to \<^verbatim>\<open>in.Spec.Template.Annotations\<close>;
  \<open>upsertPodContainers\<close> the two upserts of init containers and of the database container;
  \<open>setScheduling\<close> the assignments from \<^verbatim>\<open>NodeSelector\<close> to
  \<^verbatim>\<open>SecurityContext\<close>; \<open>attachSecrets\<close> the part from \<^verbatim>\<open>if db.Spec.Archiver != nil\<close> to
  the end of \<^verbatim>\<open>if !kmapi.HasCondition(...)\<close>; \<open>setServiceAccountAndStrategy\<close> the last two
  assignments.\<close>

definition attachSecrets :: "Api \<Rightarrow> Postgres \<Rightarrow> StatefulSet \<Rightarrow> StatefulSet" where
  "attachSecrets api db in' =
     (let in' =
            (case Archiver (pg_Spec db) of
               None \<Rightarrow> in'
             | Some archiver \<Rightarrow>
                 (case arch_Storage archiver of
                    None \<Rightarrow> in'
                  | Some archiverStorage \<Rightarrow>
                      if Local archiverStorage = None
                      then upsertArchiveSecret api in' (StorageSecretName archiverStorage)
                      else in'))
      in if \<not> HasCondition (Conditions (pg_Status db)) (DatabaseDataRestored api) then
           (case Init (pg_Spec db) of
              None \<Rightarrow> in'
            | Some initSource \<Rightarrow>
                let in' = (case PostgresWAL initSource of
                             None \<Rightarrow> in'
                           | Some wal \<Rightarrow>
                               if Local wal = None
                               then upsertInitWalSecret api in' (StorageSecretName wal)
                               else in')
                in (case Script initSource of
                      None \<Rightarrow> in'
                    | Some script \<Rightarrow> upsertInitScript api in' (scr_VolumeSource script)))
         else in')"

definition setIdentity :: "Api \<Rightarrow> Postgres \<Rightarrow> OwnerReference \<Rightarrow> int32 \<Rightarrow> StatefulSet \<Rightarrow> StatefulSet" where
  "setIdentity api db owner replicas in' =
     (let in' = in'\<lparr>Labels := OffshootLabels api db,
                    Annotations := pt_Controller_Annotations (PodTemplate (pg_Spec db))\<rparr>;
          in' = EnsureOwnerReference owner in'
      in in'\<lparr>sts_Spec := (sts_Spec in')
           \<lparr>ss_Replicas := Some replicas,
            ServiceName := GoverningServiceName api db,
            ss_Selector := Some \<lparr>MatchLabels = OffshootSelectors api db\<rparr>,
            Template := (Template (sts_Spec in'))
              \<lparr>Labels := OffshootSelectors api db,
               Annotations := pt_Annotations (PodTemplate (pg_Spec db))\<rparr>\<rparr>\<rparr>)"

definition upsertPodContainers ::
  "Api \<Rightarrow> 'c Controller \<Rightarrow> Postgres \<Rightarrow> PostgresVersion \<Rightarrow> StatefulSet \<Rightarrow> StatefulSet" where
  "upsertPodContainers api c db postgresVersion in' =
     withPodSpec
       (\<lambda>p. p\<lparr>InitContainers :=
                 UpsertContainers (InitContainers p)
                   (o_InitContainers (pt_Spec (PodTemplate (pg_Spec db)))),
               Containers :=
                 UpsertContainer (Containers p) (postgresContainer api c db postgresVersion)\<rparr>)
       in'"

definition setScheduling :: "Postgres \<Rightarrow> StatefulSet \<Rightarrow> StatefulSet" where
  "setScheduling db in' =
     (let spec = pt_Spec (PodTemplate (pg_Spec db))
      in withPodSpec
           (\<lambda>p. p\<lparr>NodeSelector := o_NodeSelector spec,
                   Affinity := o_Affinity spec,
                   SchedulerName :=
                     (if o_SchedulerName spec \<noteq> [] then o_SchedulerName spec else SchedulerName p),
                   Tolerations := o_Tolerations spec,
                   ImagePullSecrets := o_ImagePullSecrets spec,
                   PriorityClassName := o_PriorityClassName spec,
                   Priority := o_Priority spec,
                   ps_SecurityContext := o_SecurityContext spec\<rparr>)
           in')"

definition setServiceAccountAndStrategy :: "Postgres \<Rightarrow> StatefulSet \<Rightarrow> StatefulSet" where
  "setServiceAccountAndStrategy db in' =
     (let in' = withPodSpec
                  (\<lambda>p. p\<lparr>ServiceAccountName :=
                            o_ServiceAccountName (pt_Spec (PodTemplate (pg_Spec db)))\<rparr>)
                  in'
      in in'\<lparr>sts_Spec := (sts_Spec in')
           \<lparr>UpdateStrategy := \<lparr>us_Type = OnDeleteStatefulSetStrategyType\<rparr>\<rparr>\<rparr>)"

definition ensureStatefulSet_mutator ::
  "Api \<Rightarrow> 'c Controller \<Rightarrow> Postgres \<Rightarrow> PostgresVersion \<Rightarrow> EnvVar list \<Rightarrow> OwnerReference \<Rightarrow> int32
     \<Rightarrow> StatefulSet \<Rightarrow> panic + StatefulSet" where
  "ensureStatefulSet_mutator api c db postgresVersion envList owner replicas in' =
     (let in' = setIdentity api db owner replicas in';
          in' = upsertPodContainers api c db postgresVersion in';
          in' = upsertEnv api in' db envList;
          in' = upsertUserEnv api in' db;
          in' = setScheduling db in';
          in' = upsertMonitoringContainer api in' db postgresVersion;
          in' = attachSecrets api db in';
          in' = upsertShm api in'
      in case upsertDataVolume api in' db of
           Inl p \<Rightarrow> Inl p
         | Inr (in', db) \<Rightarrow>
             Inr (setServiceAccountAndStrategy db (upsertCustomConfig api in' db)))"

text \<open>\<^verbatim>\<open>ensureStatefulSet\<close>. \<open>ensurePDB\<close> is its end: the call of
  \<^verbatim>\<open>CreateStatefulSetPodDisruptionBudget\<close> and the two returns after it, both of which
  return \<^verbatim>\<open>vt\<close> and the call's error. The mutator's write to \<^verbatim>\<open>db.Spec.Storage\<close> is not
  returned: nothing after the create-or-patch call reads the database's storage.\<close>

definition ensurePDB ::
  "'c Kube \<Rightarrow> 'c Controller \<Rightarrow> StatefulSet \<Rightarrow> VerbType \<Rightarrow> 'c Controller \<times> VerbType \<times> error option" where
  "ensurePDB K c statefulSet vt =
     (case CreateStatefulSetPodDisruptionBudget K (Client c) statefulSet of
        (cl, err) \<Rightarrow> (c\<lparr>Client := cl\<rparr>, vt, err))"

text \<open>\<open>ensureStatefulSet_reconcile\<close> is \<^verbatim>\<open>ensureStatefulSet\<close> after its first statement, the
  call of \<^verbatim>\<open>checkStatefulSet\<close>: the create-or-patch call, the wait for the pods, the event
  and the disruption budget.\<close>

definition ensureStatefulSet_reconcile ::
  "Api \<Rightarrow> 'c Kube \<Rightarrow> 'c Controller \<Rightarrow> Postgres \<Rightarrow> PostgresVersion \<Rightarrow> EnvVar list
     \<Rightarrow> panic + 'c Controller \<times> VerbType \<times> error option" where
  "ensureStatefulSet_reconcile api K c db postgresVersion envList =
     (let statefulSetMeta = objectMeta (OffshootName api db) (Namespace db);
          owner = NewControllerRef api db;
          replicas = (case Replicas (pg_Spec db) of None \<Rightarrow> 1 | Some r \<Rightarrow> r)
      in case CreateOrPatchStatefulSet K (Client c) statefulSetMeta
                (ensureStatefulSet_mutator api c db postgresVersion envList owner replicas) of
           Inl p \<Rightarrow> Inl p
         | Inr (cl, Inl err) \<Rightarrow> Inr (c\<lparr>Client := cl\<rparr>, VerbUnchanged, Some err)
         | Inr (cl, Inr (statefulSet, vt)) \<Rightarrow>
             let c = c\<lparr>Client := cl\<rparr>
             in if vt = VerbCreated \<or> vt = VerbPatched then
                  (case CheckStatefulSetPodStatus K c statefulSet of
                     Some err \<Rightarrow> Inr (c, VerbUnchanged, Some err)
                   | None \<Rightarrow>
                       Inr (ensurePDB K
                              (Eventf api db (''Successfully '' @ verbString vt @ '' StatefulSet'') c)
                              statefulSet vt))
                else Inr (ensurePDB K c statefulSet vt))"

definition ensureStatefulSet ::
  "Api \<Rightarrow> 'c Kube \<Rightarrow> 'c Controller \<Rightarrow> Postgres \<Rightarrow> PostgresVersion \<Rightarrow> EnvVar list
     \<Rightarrow> panic + 'c Controller \<times> VerbType \<times> error option" where
  "ensureStatefulSet api K c db postgresVersion envList =
     (case checkStatefulSet api K c db of
        Some err \<Rightarrow> Inr (c, VerbUnchanged, Some err)
      | None \<Rightarrow> ensureStatefulSet_reconcile api K c db postgresVersion envList)"

text \<open>\<^verbatim>\<open>ensureCombinedNode\<close>.\<close>

definition ensureCombinedNode ::
  "Api \<Rightarrow> 'c Kube \<Rightarrow> 'c Controller \<Rightarrow> Postgres \<Rightarrow> PostgresVersion
     \<Rightarrow> panic + 'c Controller \<times> VerbType \<times> error option" where
  "ensureCombinedNode api K c db postgresVersion =
     (case ensureCombinedNode_envList api db of
        Inl p \<Rightarrow> Inl p
      | Inr envList \<Rightarrow> ensureStatefulSet api K c db postgresVersion envList)"


section \<open>A control plane to run the controller against\<close>

text \<open>Modelled from the spec: the create-or-patch calls are functions of
  \<^verbatim>\<open>kmodules.xyz/client-go\<close>, not in the source files. The spec's ResourceReconciler:
  ``attempt to fetch the object by identity. If absent, synthesize an empty object from the
  identity (namespace/name set, nothing else), apply mutate, and create it: outcome Created.
  If present, apply mutate to a copy of the fetched object; if the result is unchanged
  relative to the fetched object under field-wise comparison, outcome Unchanged and no
  write is issued; otherwise submit the patch: outcome Patched.'' The store maps
  (namespace, name) to the object. A panic of the mutator ends the call.\<close>

definition Reconcile ::
  "(string \<times> string \<rightharpoonup> 'o) \<Rightarrow> string \<times> string \<Rightarrow> 'o \<Rightarrow> ('o \<Rightarrow> panic + 'o)
     \<Rightarrow> panic + (string \<times> string \<rightharpoonup> 'o) \<times> 'o \<times> VerbType" where
  "Reconcile store identity blank mutate =
     (case store identity of
        None \<Rightarrow>
          (case mutate blank of
             Inl p \<Rightarrow> Inl p
           | Inr obj \<Rightarrow> Inr (store(identity \<mapsto> obj), obj, VerbCreated))
      | Some cur \<Rightarrow>
          (case mutate cur of
             Inl p \<Rightarrow> Inl p
           | Inr obj \<Rightarrow>
               if obj = cur then Inr (store, cur, VerbUnchanged)
               else Inr (store(identity \<mapsto> obj), obj, VerbPatched)))"

record FakeClient =
  fc_Services :: "string \<times> string \<rightharpoonup> Service"
  fc_StatefulSets :: "string \<times> string \<rightharpoonup> StatefulSet"

definition emptyPodSpec :: PodSpec where
  "emptyPodSpec =
     \<lparr>Volumes = [], InitContainers = [], Containers = [], NodeSelector = Map.empty,
      ServiceAccountName = [], ps_SecurityContext = None, ImagePullSecrets = [],
      Affinity = None, SchedulerName = [], Tolerations = [], PriorityClassName = [],
      Priority = None\<rparr>"

definition emptyStatefulSet :: "ObjectMeta \<Rightarrow> StatefulSet" where
  "emptyStatefulSet meta =
     \<lparr>Name = Name meta, Namespace = Namespace meta, UID = UID meta, Labels = Labels meta,
      Annotations = Annotations meta, OwnerReferences = OwnerReferences meta,
      sts_Spec =
        \<lparr>ss_Replicas = None, ss_Selector = None,
         Template = \<lparr>Name = [], Namespace = [], UID = [], Labels = Map.empty,
                      Annotations = Map.empty, OwnerReferences = [], t_Spec = emptyPodSpec\<rparr>,
         VolumeClaimTemplates = [], ServiceName = [],
         UpdateStrategy = \<lparr>us_Type = []\<rparr>\<rparr>\<rparr>"

definition emptyService :: "ObjectMeta \<Rightarrow> Service" where
  "emptyService meta =
     \<lparr>Name = Name meta, Namespace = Namespace meta, UID = UID meta, Labels = Labels meta,
      Annotations = Annotations meta, OwnerReferences = OwnerReferences meta,
      svc_Spec =
        \<lparr>svc_Ports = [], svc_Selector = Map.empty, svc_ClusterIP = [], svc_Type = [],
         svc_ExternalIPs = [], svc_LoadBalancerIP = [], svc_LoadBalancerSourceRanges = [],
         svc_ExternalTrafficPolicy = [], svc_HealthCheckNodePort = 0,
         PublishNotReadyAddresses = False\<rparr>\<rparr>"

definition fakeKube :: "FakeClient Kube" where
  "fakeKube =
     \<lparr>StatefulSets_Get =
        (\<lambda>cl namespace name.
           case fc_StatefulSets cl (namespace, name) of
             None \<Rightarrow> Inl NotFound
           | Some statefulSet \<Rightarrow> Inr statefulSet),
      CreateOrPatchService =
        (\<lambda>cl meta mutate.
           case Reconcile (fc_Services cl) (Namespace meta, Name meta) (emptyService meta)
                  (\<lambda>obj. Inr (mutate obj)) of
             Inl p \<Rightarrow> (cl, Inl (ClientError []))
           | Inr (store, obj, vt) \<Rightarrow> (cl\<lparr>fc_Services := store\<rparr>, Inr (obj, vt))),
      CreateOrPatchStatefulSet =
        (\<lambda>cl meta mutate.
           case Reconcile (fc_StatefulSets cl) (Namespace meta, Name meta) (emptyStatefulSet meta) mutate of
             Inl p \<Rightarrow> Inl p
           | Inr (store, obj, vt) \<Rightarrow> Inr (cl\<lparr>fc_StatefulSets := store\<rparr>, Inr (obj, vt))),
      WaitUntilPodRunningBySelector = (\<lambda>cl namespace selector count. None),
      CreateStatefulSetPodDisruptionBudget = (\<lambda>cl statefulSet. (cl, None))\<rparr>"

section \<open>Example inputs\<close>

text \<open>A value for every declaration that is not in the source files, with the names the
  upstream packages give them, and a controller with an empty control plane.\<close>

definition asciiLower :: "string \<Rightarrow> string" where
  "asciiLower s =
     map (\<lambda>ch. case map_of (zip ''ABCDEFGHIJKLMNOPQRSTUVWXYZ'' ''abcdefghijklmnopqrstuvwxyz'') ch of
                 None \<Rightarrow> ch | Some l \<Rightarrow> l) s"

definition upsertOffshootPort :: "ServicePort list \<Rightarrow> OffshootServicePort \<Rightarrow> ServicePort list" where
  "upsertOffshootPort cur d =
     (case find (\<lambda>p. sp_Name p = osp_Name d) cur of
        None \<Rightarrow> cur @ [\<lparr>sp_Name = osp_Name d, sp_Protocol = [], sp_Port = osp_Port d,
                         sp_TargetPort = FromInt 0, sp_NodePort = osp_NodePort d\<rparr>]
      | Some p \<Rightarrow> UpsertByName sp_Name cur (p\<lparr>sp_Port := osp_Port d, sp_NodePort := osp_NodePort d\<rparr>))"

definition exampleLabels :: "Postgres \<Rightarrow> labels" where
  "exampleLabels db = [''kubedb.com/kind'' \<mapsto> ''Postgres'', ''kubedb.com/name'' \<mapsto> Name db]"

definition exampleApi :: Api where
  "exampleApi =
     \<lparr>ResourceKindPostgres = ''Postgres'',
      ResourceSingularPostgres = ''postgres'',
      SchemeGroupVersion = ''kubedb.com/v1alpha2'',
      LabelDatabaseKind = ''kubedb.com/kind'',
      LabelDatabaseName = ''kubedb.com/name'',
      PostgresLabelRole = ''kubedb.com/role'',
      PostgresPodPrimary = ''primary'',
      PostgresPodStandby = ''replica'',
      PostgresPrimaryServicePortName = ''primary'',
      PostgresStandbyServicePortName = ''standby'',
      PostgresDatabasePortName = ''db'',
      PostgresDatabasePort = 5432,
      WarmPostgresStandbyMode = ''Warm'',
      AsynchronousPostgresStreamingMode = ''Asynchronous'',
      StorageTypeEphemeral = ''Ephemeral'',
      DatabaseDataRestored = ''DataRestored'',
      OffshootName = Name,
      GoverningServiceName = (\<lambda>db. Name db @ ''-pods''),
      StandbyServiceName = (\<lambda>db. Name db @ ''-standby''),
      db_ServiceName = Name,
      StatsService_ServiceName = (\<lambda>db. Name db @ ''-stats''),
      StatsService_Path = (\<lambda>db. ''/metrics''),
      OffshootLabels = exampleLabels,
      OffshootSelectors = exampleLabels,
      StatsServiceLabels = exampleLabels,
      WalDataDir = (\<lambda>db. ''kubedb/'' @ Namespace db @ ''/'' @ Name db @ ''/archive''),
      EnvPostgresUser = ''POSTGRES_USER'',
      EnvPostgresPassword = ''POSTGRES_PASSWORD'',
      LeaseDurationEnv = ''LEASE_DURATION'',
      RenewDeadlineEnv = ''RENEW_DEADLINE'',
      RetryPeriodEnv = ''RETRY_PERIOD'',
      analytics_Key = ''APPSCODE_ANALYTICS_CLIENT_ID'',
      VendorPrometheus = ''prometheus.io'',
      Vendor = takeWhile (\<lambda>ch. ch \<noteq> CHR ''/''),
      PrometheusExporterPortName = ''metrics'',
      strings_ToLower = asciiLower,
      EventReasonSuccessful = ''Successful'',
      core_MergeServicePorts = foldl (UpsertByName sp_Name),
      ofst_MergeServicePorts = foldl upsertOffshootPort\<rparr>"

definition exampleController :: "FakeClient Controller" where
  "exampleController =
     \<lparr>Client = \<lparr>fc_Services = Map.empty, fc_StatefulSets = Map.empty\<rparr>,
      Recorder = [], EnableAnalytics = False, LoggerOptions_ToFlags = [],
      AnalyticsClientID = []\<rparr>"

definition exampleVersion :: PostgresVersion where
  "exampleVersion = \<lparr>pv_DB_Image = ''kubedb/postgres:11.1'', pv_Exporter_Image = ''kubedb/postgres_exporter:v0.4.7''\<rparr>"

definition noResources :: ResourceRequirements where
  "noResources = \<lparr>Limits = Map.empty, Requests = Map.empty\<rparr>"

definition noServiceTemplate :: ServiceTemplateSpec where
  "noServiceTemplate =
     \<lparr>st_Annotations = Map.empty,
      st_Spec = \<lparr>os_Ports = [], os_ClusterIP = [], os_Type = [], os_ExternalIPs = [],
                 os_LoadBalancerIP = [], os_LoadBalancerSourceRanges = [],
                 os_ExternalTrafficPolicy = [], os_HealthCheckNodePort = 0\<rparr>\<rparr>"

definition noPodTemplate :: OffshootPodTemplateSpec where
  "noPodTemplate =
     \<lparr>pt_Annotations = Map.empty, pt_Controller_Annotations = Map.empty,
      pt_Spec = \<lparr>o_ServiceAccountName = [], o_InitContainers = [], o_NodeSelector = Map.empty,
                 o_Affinity = None, o_SchedulerName = [], o_Tolerations = [],
                 o_ImagePullSecrets = [], o_PriorityClassName = [], o_Priority = None,
                 o_SecurityContext = None, o_Resources = noResources, o_LivenessProbe = None,
                 o_ReadinessProbe = None, o_Lifecycle = None, o_Env = []\<rparr>\<rparr>"

text \<open>A database \<^verbatim>\<open>demo/pg\<close> with one replica by default, persistent storage with no access
  mode given, and nothing else configured.\<close>

definition examplePVC :: PersistentVolumeClaimSpec where
  "examplePVC =
     \<lparr>AccessModes = [],
      pvc_Resources = \<lparr>Limits = Map.empty, Requests = [''storage'' \<mapsto> ''1Gi'']\<rparr>,
      StorageClassName = Some ''standard''\<rparr>"

definition exampleSpec :: PostgresSpec where
  "exampleSpec =
     \<lparr>Replicas = None, StandbyMode = None, StreamingMode = None, LeaderElection = None,
      Archiver = None, AuthSecret = \<lparr>lor_Name = ''pg-auth''\<rparr>, StorageType = ''Durable'',
      Storage = Some examplePVC,
      Init = None, Monitor = None, ConfigSecret = None, PodTemplate = noPodTemplate,
      ServiceTemplate = noServiceTemplate, ReplicaServiceTemplate = noServiceTemplate\<rparr>"

definition exampleDB :: Postgres where
  "exampleDB =
     \<lparr>Name = ''pg'', Namespace = ''demo'', UID = ''uid-pg'', Labels = Map.empty,
      Annotations = Map.empty, OwnerReferences = [],
      pg_Spec = exampleSpec, pg_Status = \<lparr>Conditions = []\<rparr>\<rparr>"

definition withSpec :: "(PostgresSpec \<Rightarrow> PostgresSpec) \<Rightarrow> Postgres \<Rightarrow> Postgres" where
  "withSpec f db = db\<lparr>pg_Spec := f (pg_Spec db)\<rparr>"

definition noBackend :: Backend where
  "noBackend = \<lparr>StorageSecretName = ''wal-secret'', S3 = None, GCS = None, Azure = None,
                Swift = None, Local = None\<rparr>"

definition exampleLocal :: LocalSpec where
  "exampleLocal =
     \<lparr>l_VolumeSource = \<lparr>HostPath = Some ''/mnt/wal'', EmptyDir = None, Secret = None,
                         PersistentVolumeClaim = None\<rparr>,
      MountPath = ''/walarchive'', SubPath = []\<rparr>"

definition exampleS3 :: S3Spec where
  "exampleS3 = \<lparr>s3_Bucket = ''backups'', s3_Prefix = ''pg'', s3_Endpoint = [], s3_Region = []\<rparr>"

definition exampleGCS :: GCSSpec where
  "exampleGCS = \<lparr>gcs_Bucket = ''gbackups'', gcs_Prefix = ''pg''\<rparr>"

definition examplePITR :: RecoveryTarget where
  "examplePITR =
     \<lparr>TargetTime = ''2024-01-01T00:00:00Z'', TargetTimeline = [], TargetXID = [],
      TargetInclusive = Some True\<rparr>"

definition exampleWAL :: "(Backend \<Rightarrow> Backend) \<Rightarrow> RecoveryTarget option \<Rightarrow> PostgresWALSourceSpec" where
  "exampleWAL f pitr = Backend.extend (f noBackend) (PostgresWALSourceSpec.fields pitr)"

section \<open>The specification's words as definitions\<close>

text \<open>The five backends in the spec's priority order, each with the prefix variable it
  would give: \<open>restorePrefixCandidates\<close> and \<open>archivePrefixCandidates\<close> list the variable of
  every backend field that is populated, in that order. A first-match selection emits the
  first element of the list (\<open>take 1\<close>), and nothing when no field is populated.\<close>

definition restorePrefixCandidates :: "'a Backend_scheme \<Rightarrow> EnvVar list" where
  "restorePrefixCandidates wal =
     (case S3 wal of None \<Rightarrow> []
      | Some s3 \<Rightarrow> [envVar ''RESTORE_S3_PREFIX'' (''s3://'' @ s3_Bucket s3 @ ''/'' @ s3_Prefix s3)])
     @ (case GCS wal of None \<Rightarrow> []
        | Some gcs \<Rightarrow> [envVar ''RESTORE_GS_PREFIX'' (''gs://'' @ gcs_Bucket gcs @ ''/'' @ gcs_Prefix gcs)])
     @ (case Azure wal of None \<Rightarrow> []
        | Some azure \<Rightarrow> [envVar ''RESTORE_AZ_PREFIX'' (''azure://'' @ az_Container azure @ ''/'' @ az_Prefix azure)])
     @ (case Swift wal of None \<Rightarrow> []
        | Some swift \<Rightarrow> [envVar ''RESTORE_SWIFT_PREFIX'' (''swift://'' @ sw_Container swift @ ''/'' @ sw_Prefix swift)])
     @ (case Local wal of None \<Rightarrow> []
        | Some local \<Rightarrow> [envVar ''RESTORE_FILE_PREFIX'' (path_Join [''/'', MountPath local, SubPath local])])"

definition archivePrefixCandidates :: "Api \<Rightarrow> Postgres \<Rightarrow> 'a Backend_scheme \<Rightarrow> EnvVar list" where
  "archivePrefixCandidates api db storage =
     (case S3 storage of None \<Rightarrow> []
      | Some s3 \<Rightarrow> [envVar ''ARCHIVE_S3_PREFIX'' (''s3://'' @ s3_Bucket s3 @ ''/'' @ WalDataDir api db)])
     @ (case GCS storage of None \<Rightarrow> []
        | Some gcs \<Rightarrow> [envVar ''ARCHIVE_GS_PREFIX'' (''gs://'' @ gcs_Bucket gcs @ ''/'' @ WalDataDir api db)])
     @ (case Azure storage of None \<Rightarrow> []
        | Some azure \<Rightarrow> [envVar ''ARCHIVE_AZ_PREFIX'' (''azure://'' @ az_Container azure @ ''/'' @ WalDataDir api db)])
     @ (case Swift storage of None \<Rightarrow> []
        | Some swift \<Rightarrow> [envVar ''ARCHIVE_SWIFT_PREFIX'' (''swift://'' @ sw_Container swift @ ''/'' @ WalDataDir api db)])
     @ (case Local storage of None \<Rightarrow> []
        | Some local \<Rightarrow> [envVar ''ARCHIVE_FILE_PREFIX'' (MountPath local)])"

definition restorePrefixNames :: "string list" where
  "restorePrefixNames =
     [''RESTORE_S3_PREFIX'', ''RESTORE_GS_PREFIX'', ''RESTORE_AZ_PREFIX'', ''RESTORE_SWIFT_PREFIX'',
      ''RESTORE_FILE_PREFIX'']"

definition archivePrefixNames :: "string list" where
  "archivePrefixNames =
     [''ARCHIVE_S3_PREFIX'', ''ARCHIVE_GS_PREFIX'', ''ARCHIVE_AZ_PREFIX'', ''ARCHIVE_SWIFT_PREFIX'',
      ''ARCHIVE_FILE_PREFIX'']"

definition isRestorePrefix :: "EnvVar \<Rightarrow> bool" where
  "isRestorePrefix e = (e_Name e \<in> set restorePrefixNames)"

definition isArchivePrefix :: "EnvVar \<Rightarrow> bool" where
  "isArchivePrefix e = (e_Name e \<in> set archivePrefixNames)"

text \<open>How many of the five backend fields are populated.\<close>

definition backendCount :: "'a Backend_scheme \<Rightarrow> nat" where
  "backendCount b =
     length (filter (\<lambda>populated. populated)
       [S3 b \<noteq> None, GCS b \<noteq> None, Azure b \<noteq> None, Swift b \<noteq> None, Local b \<noteq> None])"

text \<open>The endpoint and region variables of an S3 restore source.\<close>

definition restoreS3Extras :: "'a Backend_scheme \<Rightarrow> EnvVar list" where
  "restoreS3Extras wal =
     (case S3 wal of
        None \<Rightarrow> []
      | Some s3 \<Rightarrow>
          (if s3_Endpoint s3 \<noteq> [] \<and> \<not> strings_HasSuffix (s3_Endpoint s3) ''.amazonaws.com''
           then [envVar ''RESTORE_S3_ENDPOINT'' (s3_Endpoint s3)] else [])
          @ (if s3_Region s3 \<noteq> [] then [envVar ''RESTORE_S3_REGION'' (s3_Region s3)] else []))"

text \<open>The variables a point-in-time-recovery target adds, once \<^verbatim>\<open>TargetInclusive\<close> has been
  read; and the names the restore variables have, and those of the first variables of the
  derived environment (the three of the leader election are parameters).\<close>

definition pitrEnv :: "RecoveryTarget \<Rightarrow> bool \<Rightarrow> EnvVar list" where
  "pitrEnv pitr targetInclusive =
     [envVar ''PITR'' ''true'', envVar ''TARGET_INCLUSIVE'' (fmt_bool targetInclusive)]
     @ (if TargetTime pitr \<noteq> [] then [envVar ''TARGET_TIME'' (TargetTime pitr)] else [])
     @ (if TargetTimeline pitr \<noteq> [] then [envVar ''TARGET_TIMELINE'' (TargetTimeline pitr)] else [])
     @ (if TargetXID pitr \<noteq> [] then [envVar ''TARGET_XID'' (TargetXID pitr)] else [])"

definition walEnvNames :: "string list" where
  "walEnvNames =
     [''RESTORE'', ''RESTORE_S3_PREFIX'', ''RESTORE_S3_ENDPOINT'', ''RESTORE_S3_REGION'',
      ''RESTORE_GS_PREFIX'', ''RESTORE_AZ_PREFIX'', ''RESTORE_SWIFT_PREFIX'', ''RESTORE_FILE_PREFIX'',
      ''PITR'', ''TARGET_INCLUSIVE'', ''TARGET_TIME'', ''TARGET_TIMELINE'', ''TARGET_XID'']"

definition headEnvNames :: "Api \<Rightarrow> string list" where
  "headEnvNames api =
     [''STANDBY'', ''STREAMING'', LeaseDurationEnv api, RenewDeadlineEnv api, RetryPeriodEnv api]"

text \<open>Databases for the examples: archiving to storage that has no backend field populated,
  to storage with both the S3 and the GCS field populated, to S3 with a given endpoint,
  and to a local volume.\<close>

definition archivingDB :: "Backend \<Rightarrow> Postgres" where
  "archivingDB storage =
     withSpec (\<lambda>s. s\<lparr>Archiver := Some \<lparr>arch_Storage = Some storage\<rparr>\<rparr>) exampleDB"

definition s3AndGcsStorage :: Backend where
  "s3AndGcsStorage = noBackend\<lparr>S3 := Some exampleS3, GCS := Some exampleGCS\<rparr>"

definition s3Storage :: "string \<Rightarrow> string \<Rightarrow> Backend" where
  "s3Storage endpoint region =
     noBackend\<lparr>S3 := Some (exampleS3\<lparr>s3_Endpoint := endpoint, s3_Region := region\<rparr>)\<rparr>"


text \<open>The spec's rule for combining two outcomes: ``Created+Created gives Created, any
  Patched gives Patched, else Unchanged''; and the replica count of a database, 1 when the
  spec gives none.\<close>

fun combinedOutcome :: "VerbType \<Rightarrow> VerbType \<Rightarrow> VerbType" where
  "combinedOutcome VerbCreated VerbCreated = VerbCreated"
| "combinedOutcome VerbCreated VerbPatched = VerbPatched"
| "combinedOutcome VerbCreated VerbUnchanged = VerbUnchanged"
| "combinedOutcome VerbPatched _ = VerbPatched"
| "combinedOutcome VerbUnchanged VerbPatched = VerbPatched"
| "combinedOutcome VerbUnchanged VerbCreated = VerbUnchanged"
| "combinedOutcome VerbUnchanged VerbUnchanged = VerbUnchanged"

definition replicasOf :: "Postgres \<Rightarrow> int32" where
  "replicasOf db = (case Replicas (pg_Spec db) of None \<Rightarrow> 1 | Some r \<Rightarrow> r)"

text \<open>More databases for the examples: three replicas; a monitoring agent that is not the
  Prometheus one; and a controller whose control plane already has a StatefulSet
  \<^verbatim>\<open>demo/pg\<close> without labels.\<close>

definition threeReplicasDB :: Postgres where
  "threeReplicasDB = withSpec (\<lambda>s. s\<lparr>Replicas := Some 3\<rparr>) exampleDB"

definition otherVendorDB :: Postgres where
  "otherVendorDB =
     withSpec (\<lambda>s. s\<lparr>Monitor := Some
        \<lparr>Agent = ''datadog.com/agent'',
         Prometheus = \<lparr>Exporter = \<lparr>exp_Port = 56790, exp_Args = [], exp_Env = [],
                         exp_Resources = noResources, exp_SecurityContext = None\<rparr>\<rparr>\<rparr>\<rparr>) exampleDB"


text \<open>A database that archives to a local volume; the mutator of \<^verbatim>\<open>ensureStatefulSet\<close>
  for it, as \<^verbatim>\<open>ensureCombinedNode\<close> builds it; and a StatefulSet that has the database
  container and nothing else.\<close>

definition localArchiveDB :: Postgres where
  "localArchiveDB = archivingDB (noBackend\<lparr>Local := Some exampleLocal\<rparr>)"

definition localArchiveEnv :: "EnvVar list" where
  "localArchiveEnv =
     [envVar ''STANDBY'' ''warm'', envVar ''STREAMING'' ''asynchronous'',
      envVar ''ARCHIVE'' ''wal-g'', envVar ''ARCHIVE_FILE_PREFIX'' ''/walarchive'']"

definition localArchiveMutator :: "StatefulSet \<Rightarrow> panic + StatefulSet" where
  "localArchiveMutator =
     ensureStatefulSet_mutator exampleApi exampleController localArchiveDB exampleVersion
       localArchiveEnv (NewControllerRef exampleApi localArchiveDB) 1"

definition bareStatefulSet :: StatefulSet where
  "bareStatefulSet =
     withPodSpec
       (\<lambda>p. p\<lparr>Containers := [postgresContainer exampleApi exampleController exampleDB exampleVersion]\<rparr>)
       (emptyStatefulSet (objectMeta ''pg'' ''demo''))"

text \<open>What the properties below observe of a StatefulSet: the names of the pod's containers,
  and how many of the pod's volumes have a given name.\<close>

definition containerNames :: "StatefulSet \<Rightarrow> string list" where
  "containerNames statefulSet = map c_Name (Containers (podSpec statefulSet))"

definition countVolumes :: "string \<Rightarrow> StatefulSet \<Rightarrow> nat" where
  "countVolumes name statefulSet =
     length (filter (\<lambda>v. v_Name v = name) (Volumes (podSpec statefulSet)))"


section \<open>Properties of the environment derivation\<close>

lemma walBackendEnv_filter:
  "filter isRestorePrefix (walBackendEnv wal) = take 1 (restorePrefixCandidates wal)"
  by (cases "S3 wal"; cases "GCS wal"; cases "Azure wal"; cases "Swift wal"; cases "Local wal";
      simp add: walBackendEnv_def restorePrefixCandidates_def isRestorePrefix_def
        restorePrefixNames_def envVar_def)

lemma walBackendEnv_single:
  "backendCount wal = 1 \<Longrightarrow> walBackendEnv wal = restorePrefixCandidates wal @ restoreS3Extras wal"
  by (cases "S3 wal"; cases "GCS wal"; cases "Azure wal"; cases "Swift wal"; cases "Local wal";
      simp add: walBackendEnv_def restorePrefixCandidates_def restoreS3Extras_def backendCount_def)

lemma restorePrefixCandidates_single:
  "backendCount wal = 1 \<Longrightarrow> length (restorePrefixCandidates wal) = 1"
  by (cases "S3 wal"; cases "GCS wal"; cases "Azure wal"; cases "Swift wal"; cases "Local wal";
      simp add: restorePrefixCandidates_def backendCount_def)

lemma archiverStorageEnv_filter:
  "filter isArchivePrefix (archiverStorageEnv api db st) = take 1 (archivePrefixCandidates api db st)"
  by (cases "S3 st"; cases "GCS st"; cases "Azure st"; cases "Swift st"; cases "Local st";
      simp add: archiverStorageEnv_def archivePrefixCandidates_def isArchivePrefix_def
        archivePrefixNames_def envVar_def)

lemma walBackendEnv_names:
  "e \<in> set (walBackendEnv wal) \<Longrightarrow> e_Name e \<in> set walEnvNames"
  by (cases "S3 wal"; cases "GCS wal"; cases "Azure wal"; cases "Swift wal"; cases "Local wal";
      auto simp: walBackendEnv_def walEnvNames_def envVar_def split: if_splits)

lemma walRecoveryConfig_cases:
  "walRecoveryConfig wal =
     (case PITR wal of
        None \<Rightarrow> Inr (envVar ''RESTORE'' ''true'' # walBackendEnv wal)
      | Some pitr \<Rightarrow>
          (case TargetInclusive pitr of
             None \<Rightarrow> Inl NilPointerDereference
           | Some b \<Rightarrow> Inr (envVar ''RESTORE'' ''true'' # walBackendEnv wal @ pitrEnv pitr b)))"
  by (simp add: walRecoveryConfig_def pitrEnv_def Let_def split: option.splits)

lemma pitrEnv_names: "e \<in> set (pitrEnv pitr b) \<Longrightarrow> e_Name e \<in> set walEnvNames"
  by (auto simp: pitrEnv_def walEnvNames_def envVar_def split: if_splits)

lemma pitrEnv_no_prefix: "filter isRestorePrefix (pitrEnv pitr b) = []"
  by (simp add: pitrEnv_def isRestorePrefix_def restorePrefixNames_def envVar_def)

lemma walRecoveryConfig_names:
  assumes "walRecoveryConfig wal = Inr envList"
  shows "set (map e_Name envList) \<subseteq> set walEnvNames"
proof -
  have r: "e_Name (envVar ''RESTORE'' ''true'') \<in> set walEnvNames"
    by (simp add: walEnvNames_def envVar_def)
  from assms show ?thesis
    by (auto simp: walRecoveryConfig_cases r split: option.splits
          dest: walBackendEnv_names pitrEnv_names)
qed

lemma walRecoveryConfig_prefix:
  assumes "walRecoveryConfig wal = Inr envList"
  shows "filter isRestorePrefix envList = take 1 (restorePrefixCandidates wal)"
proof -
  have r: "\<not> isRestorePrefix (envVar ''RESTORE'' ''true'')"
    by (simp add: isRestorePrefix_def restorePrefixNames_def envVar_def)
  from assms show ?thesis
    by (auto simp: walRecoveryConfig_cases r walBackendEnv_filter pitrEnv_no_prefix
          split: option.splits)
qed

lemma filter_names_disjoint:
  "set (map e_Name xs) \<subseteq> A \<Longrightarrow> N \<inter> A = {} \<Longrightarrow> filter (\<lambda>e. e_Name e \<in> N) xs = []"
  by (auto simp: filter_empty_conv)

lemma envList_decomposition:
  assumes "ensureCombinedNode_envList api db = Inr envList"
      and "Archiver (pg_Spec db) = Some archiver" and "arch_Storage archiver = Some st"
  shows "\<exists>pre post. envList = pre @ archiverStorageEnv api db st @ post
           \<and> set (map e_Name pre) \<subseteq> set (headEnvNames api)
           \<and> set (map e_Name post) \<subseteq> set walEnvNames"
proof -
  define pre where "pre =
     [envVar ''STANDBY'' (strings_ToLower api
        (case StandbyMode (pg_Spec db) of Some m \<Rightarrow> m | None \<Rightarrow> WarmPostgresStandbyMode api)),
      envVar ''STREAMING'' (strings_ToLower api
        (case StreamingMode (pg_Spec db) of Some m \<Rightarrow> m | None \<Rightarrow> AsynchronousPostgresStreamingMode api))]
     @ (case LeaderElection (pg_Spec db) of
          None \<Rightarrow> []
        | Some le \<Rightarrow>
            [envVar (LeaseDurationEnv api) (strconv_Itoa (sint (LeaseDurationSeconds le))),
             envVar (RenewDeadlineEnv api) (strconv_Itoa (sint (RenewDeadlineSeconds le))),
             envVar (RetryPeriodEnv api) (strconv_Itoa (sint (RetryPeriodSeconds le)))])"
  have pre_names: "set (map e_Name pre) \<subseteq> set (headEnvNames api)"
    by (cases "LeaderElection (pg_Spec db)") (simp_all add: pre_def headEnvNames_def envVar_def)
  have shape: "ensureCombinedNode_envList api db =
      (case Init (pg_Spec db) of
         None \<Rightarrow> Inr (pre @ archiverStorageEnv api db st)
       | Some init \<Rightarrow>
           (case PostgresWAL init of
              None \<Rightarrow> Inr (pre @ archiverStorageEnv api db st)
            | Some wal \<Rightarrow>
                (case walRecoveryConfig wal of
                   Inl p \<Rightarrow> Inl p
                 | Inr walEnv \<Rightarrow> Inr (pre @ archiverStorageEnv api db st @ walEnv))))"
    using assms(2,3)
    by (simp add: ensureCombinedNode_envList_def pre_def Let_def split: option.splits sum.splits)
  show ?thesis
  proof (cases "Init (pg_Spec db)")
    case None
    with assms(1) shape have "envList = pre @ archiverStorageEnv api db st @ []" by simp
    with pre_names show ?thesis by (intro exI [of _ pre] exI [of _ "[]"]) simp
  next
    case (Some init)
    show ?thesis
    proof (cases "PostgresWAL init")
      case None
      with Some assms(1) shape have "envList = pre @ archiverStorageEnv api db st @ []" by simp
      with pre_names show ?thesis by (intro exI [of _ pre] exI [of _ "[]"]) simp
    next
      case (Some wal)
      with \<open>Init (pg_Spec db) = Some init\<close> assms(1) shape
      obtain walEnv where w: "walRecoveryConfig wal = Inr walEnv"
        and e: "envList = pre @ archiverStorageEnv api db st @ walEnv"
        by (auto split: sum.splits)
      from walRecoveryConfig_names [OF w] pre_names e show ?thesis
        by (intro exI [of _ pre] exI [of _ walEnv]) simp
    qed
  qed
qed

lemma envList_archive_filter:
  assumes "ensureCombinedNode_envList api db = Inr envList"
      and "Archiver (pg_Spec db) = Some archiver" and "arch_Storage archiver = Some st"
      and "N \<inter> set (headEnvNames api) = {}" and "N \<inter> set walEnvNames = {}"
  shows "filter (\<lambda>e. e_Name e \<in> N) envList
           = filter (\<lambda>e. e_Name e \<in> N) (archiverStorageEnv api db st)"
proof -
  from envList_decomposition [OF assms(1-3)] obtain pre post where
    e: "envList = pre @ archiverStorageEnv api db st @ post"
    and p: "set (map e_Name pre) \<subseteq> set (headEnvNames api)"
    and q: "set (map e_Name post) \<subseteq> set walEnvNames"
    by blast
  show ?thesis
    by (simp add: e filter_names_disjoint [OF p assms(4)] filter_names_disjoint [OF q assms(5)])
qed


lemma exampleWAL_simps:
  "PITR (exampleWAL f pitr) = pitr"
  "S3 (exampleWAL f pitr) = S3 (f noBackend)"
  "GCS (exampleWAL f pitr) = GCS (f noBackend)"
  "Azure (exampleWAL f pitr) = Azure (f noBackend)"
  "Swift (exampleWAL f pitr) = Swift (f noBackend)"
  "Local (exampleWAL f pitr) = Local (f noBackend)"
  by (cases "f noBackend"; simp add: exampleWAL_def Backend.defs PostgresWALSourceSpec.defs)+

lemma noBackend_simps:
  "S3 noBackend = None" "GCS noBackend = None" "Azure noBackend = None"
  "Swift noBackend = None" "Local noBackend = None"
  by (simp_all add: noBackend_def)

lemma archivingDB_simps:
  "Archiver (pg_Spec (archivingDB st)) = Some \<lparr>arch_Storage = Some st\<rparr>"
  "Init (pg_Spec (archivingDB st)) = None"
  "LeaderElection (pg_Spec (archivingDB st)) = None"
  "StandbyMode (pg_Spec (archivingDB st)) = None"
  "StreamingMode (pg_Spec (archivingDB st)) = None"
  "Name (archivingDB st) = ''pg''"
  "Namespace (archivingDB st) = ''demo''"
  by (simp_all add: archivingDB_def withSpec_def exampleDB_def exampleSpec_def)

lemma exampleApi_env_simps:
  "WarmPostgresStandbyMode exampleApi = ''Warm''"
  "AsynchronousPostgresStreamingMode exampleApi = ''Asynchronous''"
  "strings_ToLower exampleApi = asciiLower"
  "LeaseDurationEnv exampleApi = ''LEASE_DURATION''"
  "RenewDeadlineEnv exampleApi = ''RENEW_DEADLINE''"
  "RetryPeriodEnv exampleApi = ''RETRY_PERIOD''"
  "WalDataDir exampleApi db = ''kubedb/'' @ Namespace db @ ''/'' @ Name db @ ''/archive''"
  by (simp_all add: exampleApi_def)

lemma asciiLower_examples:
  "asciiLower ''Warm'' = ''warm''" "asciiLower ''Asynchronous'' = ''asynchronous''"
  by (simp_all add: asciiLower_def)

lemma archivingDB_envList:
  "ensureCombinedNode_envList exampleApi (archivingDB st) =
     Inr ([envVar ''STANDBY'' ''warm'', envVar ''STREAMING'' ''asynchronous'']
          @ archiverStorageEnv exampleApi (archivingDB st) st)"
  by (simp add: ensureCombinedNode_envList_def archivingDB_simps exampleApi_env_simps
        asciiLower_examples)

text \<open>C9. Where the restore source has a point-in-time-recovery target, \<^verbatim>\<open>walRecoveryConfig\<close>
  reads \<^verbatim>\<open>*wal.PITR.TargetInclusive\<close> whatever the other fields are: it panics with a nil
  pointer dereference exactly when \<^verbatim>\<open>TargetInclusive\<close> is nil, it returns exactly when
  \<^verbatim>\<open>TargetInclusive\<close> is not nil, and then the result has the variable
  \<^verbatim>\<open>TARGET_INCLUSIVE\<close> with the flag as its value; the variable is never left out.\<close>

theorem walRecoveryConfig_dereferences_TargetInclusive:
  assumes "PITR wal = Some pitr"
  shows "(walRecoveryConfig wal = Inl NilPointerDereference) = (TargetInclusive pitr = None)
       \<and> ((\<exists>envList. walRecoveryConfig wal = Inr envList) = (TargetInclusive pitr \<noteq> None))
       \<and> (\<forall>b. TargetInclusive pitr = Some b \<longrightarrow>
            (\<exists>envList. walRecoveryConfig wal = Inr envList
               \<and> envVar ''TARGET_INCLUSIVE'' (fmt_bool b) \<in> set envList))"
  using assms
  by (cases "TargetInclusive pitr") (simp_all add: walRecoveryConfig_cases pitrEnv_def)

theorem walRecoveryConfig_dereferences_TargetInclusive_witness:
  "walRecoveryConfig
     (exampleWAL (\<lambda>b. b\<lparr>S3 := Some exampleS3\<rparr>) (Some (examplePITR\<lparr>TargetInclusive := None\<rparr>)))
   = Inl NilPointerDereference"
proof -
  let ?pitr = "examplePITR\<lparr>TargetInclusive := None\<rparr>"
  let ?wal = "exampleWAL (\<lambda>b. b\<lparr>S3 := Some exampleS3\<rparr>) (Some ?pitr)"
  have "PITR ?wal = Some ?pitr" by (simp add: exampleWAL_simps)
  from walRecoveryConfig_dereferences_TargetInclusive [OF this]
  show ?thesis by simp
qed

text \<open>C6, as the spec states it, fails for an S3 restore source with a region: the region
  variable is emitted too, six variables and not five.\<close>

theorem walRecoveryConfig_pitr_counterexample:
  "walRecoveryConfig
     (exampleWAL (\<lambda>b. b\<lparr>S3 := Some (exampleS3\<lparr>s3_Region := ''us-east-1''\<rparr>)\<rparr>) (Some examplePITR))
   = Inr [envVar ''RESTORE'' ''true'', envVar ''RESTORE_S3_PREFIX'' ''s3://backups/pg'',
          envVar ''RESTORE_S3_REGION'' ''us-east-1'', envVar ''PITR'' ''true'',
          envVar ''TARGET_INCLUSIVE'' ''true'', envVar ''TARGET_TIME'' ''2024-01-01T00:00:00Z'']
   \<and> backendCount
       (exampleWAL (\<lambda>b. b\<lparr>S3 := Some (exampleS3\<lparr>s3_Region := ''us-east-1''\<rparr>)\<rparr>) (Some examplePITR)) = 1"
  by (simp add: walRecoveryConfig_cases walBackendEnv_def pitrEnv_def exampleWAL_simps
        noBackend_simps examplePITR_def exampleS3_def fmt_bool_def backendCount_def)

lemma walBackendEnv_no_target:
  "e \<in> set (walBackendEnv wal) \<Longrightarrow> e_Name e \<noteq> ''TARGET_TIMELINE'' \<and> e_Name e \<noteq> ''TARGET_XID''"
  by (cases "S3 wal"; cases "GCS wal"; cases "Azure wal"; cases "Swift wal"; cases "Local wal";
      auto simp: walBackendEnv_def envVar_def split: if_splits)

text \<open>C6, amended. For a restore source with exactly one backend field populated and a
  recovery target with \<^verbatim>\<open>TargetInclusive\<close> pointing to true, target time
  \<^verbatim>\<open>2024-01-01T00:00:00Z\<close> and empty timeline and transaction id, \<^verbatim>\<open>walRecoveryConfig\<close>
  returns \<^verbatim>\<open>RESTORE=true\<close>, the one prefix variable, for S3 the endpoint and region
  variables that apply, then \<^verbatim>\<open>PITR=true\<close>, \<^verbatim>\<open>TARGET_INCLUSIVE=true\<close> and
  \<^verbatim>\<open>TARGET_TIME\<close>; no variable is named \<^verbatim>\<open>TARGET_TIMELINE\<close> or \<^verbatim>\<open>TARGET_XID\<close>. The
  S3 extras are empty for every other backend, and for S3 when the endpoint is empty or
  ends in \<^verbatim>\<open>.amazonaws.com\<close> and the region is empty: then the result is exactly the five
  variables of the claim.\<close>

theorem walRecoveryConfig_pitr_env:
  assumes "backendCount wal = 1" and "PITR wal = Some pitr"
      and "TargetInclusive pitr = Some True" and "TargetTime pitr = ''2024-01-01T00:00:00Z''"
      and "TargetTimeline pitr = []" and "TargetXID pitr = []"
  shows "walRecoveryConfig wal =
           Inr ([envVar ''RESTORE'' ''true''] @ restorePrefixCandidates wal @ restoreS3Extras wal
                @ [envVar ''PITR'' ''true'', envVar ''TARGET_INCLUSIVE'' ''true'',
                   envVar ''TARGET_TIME'' ''2024-01-01T00:00:00Z''])
       \<and> length (restorePrefixCandidates wal) = 1
       \<and> (S3 wal = None \<longrightarrow> restoreS3Extras wal = [])
       \<and> (\<forall>s3. S3 wal = Some s3
              \<and> (s3_Endpoint s3 = [] \<or> strings_HasSuffix (s3_Endpoint s3) ''.amazonaws.com'')
              \<and> s3_Region s3 = [] \<longrightarrow> restoreS3Extras wal = [])
       \<and> (\<forall>envList. walRecoveryConfig wal = Inr envList \<longrightarrow>
              ''TARGET_TIMELINE'' \<notin> set (map e_Name envList)
              \<and> ''TARGET_XID'' \<notin> set (map e_Name envList))"
proof -
  have result: "walRecoveryConfig wal =
      Inr (envVar ''RESTORE'' ''true'' # walBackendEnv wal
           @ [envVar ''PITR'' ''true'', envVar ''TARGET_INCLUSIVE'' ''true'',
              envVar ''TARGET_TIME'' ''2024-01-01T00:00:00Z''])"
    using assms(2-6) by (simp add: walRecoveryConfig_cases pitrEnv_def fmt_bool_def)
  have first: "walRecoveryConfig wal =
           Inr ([envVar ''RESTORE'' ''true''] @ restorePrefixCandidates wal @ restoreS3Extras wal
                @ [envVar ''PITR'' ''true'', envVar ''TARGET_INCLUSIVE'' ''true'',
                   envVar ''TARGET_TIME'' ''2024-01-01T00:00:00Z''])"
    by (simp add: result walBackendEnv_single [OF assms(1)])
  have extras_none: "S3 wal = None \<longrightarrow> restoreS3Extras wal = []"
    by (simp add: restoreS3Extras_def)
  have extras_aws: "\<forall>s3. S3 wal = Some s3
              \<and> (s3_Endpoint s3 = [] \<or> strings_HasSuffix (s3_Endpoint s3) ''.amazonaws.com'')
              \<and> s3_Region s3 = [] \<longrightarrow> restoreS3Extras wal = []"
    by (auto simp: restoreS3Extras_def)
  have names: "\<forall>envList. walRecoveryConfig wal = Inr envList \<longrightarrow>
              ''TARGET_TIMELINE'' \<notin> set (map e_Name envList)
              \<and> ''TARGET_XID'' \<notin> set (map e_Name envList)"
    by (auto simp: result envVar_def dest: walBackendEnv_no_target)
  from first restorePrefixCandidates_single [OF assms(1)] extras_none extras_aws names
  show ?thesis by blast
qed

theorem walRecoveryConfig_pitr_env_witness:
  "walRecoveryConfig (exampleWAL (\<lambda>b. b\<lparr>GCS := Some exampleGCS\<rparr>) (Some examplePITR))
   = Inr [envVar ''RESTORE'' ''true'', envVar ''RESTORE_GS_PREFIX'' ''gs://gbackups/pg'',
          envVar ''PITR'' ''true'', envVar ''TARGET_INCLUSIVE'' ''true'',
          envVar ''TARGET_TIME'' ''2024-01-01T00:00:00Z'']"
proof -
  let ?wal = "exampleWAL (\<lambda>b. b\<lparr>GCS := Some exampleGCS\<rparr>) (Some examplePITR)"
  have c: "backendCount ?wal = 1"
    by (simp add: backendCount_def exampleWAL_simps noBackend_simps)
  have p: "PITR ?wal = Some examplePITR" by (simp add: exampleWAL_simps)
  have t: "TargetInclusive examplePITR = Some True"
    "TargetTime examplePITR = ''2024-01-01T00:00:00Z''"
    "TargetTimeline examplePITR = []" "TargetXID examplePITR = []"
    by (simp_all add: examplePITR_def)
  from walRecoveryConfig_pitr_env [OF c p t]
  show ?thesis
    by (simp add: restorePrefixCandidates_def restoreS3Extras_def exampleWAL_simps noBackend_simps
          exampleGCS_def)
qed


lemma archivePrefix_head_disjoint:
  assumes "set [LeaseDurationEnv api, RenewDeadlineEnv api, RetryPeriodEnv api] \<inter> N = {}"
      and "''STANDBY'' \<notin> N" and "''STREAMING'' \<notin> N"
  shows "N \<inter> set (headEnvNames api) = {}"
  using assms by (auto simp: headEnvNames_def)

lemma archivePrefixNames_wal_disjoint: "set archivePrefixNames \<inter> set walEnvNames = {}"
  by (simp add: archivePrefixNames_def walEnvNames_def)

lemma archivePrefixCandidates_S3:
  "S3 st = Some s3 \<Longrightarrow>
     take 1 (archivePrefixCandidates api db st)
       = [envVar ''ARCHIVE_S3_PREFIX'' (''s3://'' @ s3_Bucket s3 @ ''/'' @ WalDataDir api db)]"
  by (simp add: archivePrefixCandidates_def)

lemma filter_isArchivePrefix_names:
  "filter isArchivePrefix envList = [envVar ''ARCHIVE_S3_PREFIX'' v] \<Longrightarrow>
     ''ARCHIVE_S3_PREFIX'' \<in> set (map e_Name envList) \<and> ''ARCHIVE_GS_PREFIX'' \<notin> set (map e_Name envList)"
proof -
  assume f: "filter isArchivePrefix envList = [envVar ''ARCHIVE_S3_PREFIX'' v]"
  have "envVar ''ARCHIVE_S3_PREFIX'' v \<in> set (filter isArchivePrefix envList)" by (simp add: f)
  then have a: "''ARCHIVE_S3_PREFIX'' \<in> set (map e_Name envList)"
    by (force simp: envVar_def)
  have b: "''ARCHIVE_GS_PREFIX'' \<notin> set (map e_Name envList)"
  proof
    assume "''ARCHIVE_GS_PREFIX'' \<in> set (map e_Name envList)"
    then obtain e where e: "e \<in> set envList" "e_Name e = ''ARCHIVE_GS_PREFIX''" by auto
    then have "e \<in> set (filter isArchivePrefix envList)"
      by (simp add: isArchivePrefix_def archivePrefixNames_def)
    with f e(2) show False by (simp add: envVar_def)
  qed
  from a b show ?thesis ..
qed

text \<open>C4, as the spec states it, fails for storage with no backend field populated: the
  derived environment then has \<^verbatim>\<open>ARCHIVE=wal-g\<close> and no prefix variable, and the restore
  variables are \<^verbatim>\<open>RESTORE=true\<close> alone; none is emitted, not exactly one.\<close>

theorem backend_selection_counterexample:
  "ensureCombinedNode_envList exampleApi (archivingDB noBackend)
     = Inr [envVar ''STANDBY'' ''warm'', envVar ''STREAMING'' ''asynchronous'',
            envVar ''ARCHIVE'' ''wal-g'']
   \<and> filter isArchivePrefix
       [envVar ''STANDBY'' ''warm'', envVar ''STREAMING'' ''asynchronous'',
        envVar ''ARCHIVE'' ''wal-g''] = []
   \<and> walRecoveryConfig (exampleWAL (\<lambda>b. b) None) = Inr [envVar ''RESTORE'' ''true'']
   \<and> filter isRestorePrefix [envVar ''RESTORE'' ''true''] = []"
  by (simp add: archivingDB_envList archiverStorageEnv_def noBackend_simps
        walRecoveryConfig_cases walBackendEnv_def exampleWAL_simps
        isArchivePrefix_def archivePrefixNames_def isRestorePrefix_def restorePrefixNames_def
        envVar_def)

text \<open>C4, amended. For every archive storage reference and every restore WAL source
  reference, backend selection is a first-match check in the priority order S3, GCS, Azure,
  Swift, Local: the prefix variables of the derived environment are the first of the
  candidates of the populated fields, in that order. So at most one prefix variable is
  emitted, exactly one when at least one backend field is populated (also when several
  are) and none when no field is; with the S3 field set on archive storage (whatever the
  GCS field is), the derived environment contains \<^verbatim>\<open>ARCHIVE_S3_PREFIX\<close> and never
  \<^verbatim>\<open>ARCHIVE_GS_PREFIX\<close>. The names of the three leader-election variables are not in the
  source files; they are taken to differ from the five archive prefix names.\<close>

theorem backend_selection_first_match:
  "(\<forall>archiver st envList.
       Archiver (pg_Spec db) = Some archiver \<and> arch_Storage archiver = Some st
       \<and> ensureCombinedNode_envList api db = Inr envList
       \<and> set [LeaseDurationEnv api, RenewDeadlineEnv api, RetryPeriodEnv api]
           \<inter> set archivePrefixNames = {}
       \<longrightarrow> filter isArchivePrefix envList = take 1 (archivePrefixCandidates api db st)
           \<and> (S3 st \<noteq> None \<longrightarrow>
                ''ARCHIVE_S3_PREFIX'' \<in> set (map e_Name envList)
                \<and> ''ARCHIVE_GS_PREFIX'' \<notin> set (map e_Name envList)))
   \<and> (\<forall>walEnv. walRecoveryConfig wal = Inr walEnv
         \<longrightarrow> filter isRestorePrefix walEnv = take 1 (restorePrefixCandidates wal))"
proof (intro conjI allI impI)
  fix archiver st envList
  assume h: "Archiver (pg_Spec db) = Some archiver \<and> arch_Storage archiver = Some st
       \<and> ensureCombinedNode_envList api db = Inr envList
       \<and> set [LeaseDurationEnv api, RenewDeadlineEnv api, RetryPeriodEnv api]
           \<inter> set archivePrefixNames = {}"
  from h have h1: "Archiver (pg_Spec db) = Some archiver" and h2: "arch_Storage archiver = Some st"
    and h3: "ensureCombinedNode_envList api db = Inr envList"
    and h4: "set [LeaseDurationEnv api, RenewDeadlineEnv api, RetryPeriodEnv api]
           \<inter> set archivePrefixNames = {}"
    by blast+
  have head: "set archivePrefixNames \<inter> set (headEnvNames api) = {}"
    using h4 by (intro archivePrefix_head_disjoint) (simp_all add: archivePrefixNames_def)
  have "filter (\<lambda>e. e_Name e \<in> set archivePrefixNames) envList
          = filter (\<lambda>e. e_Name e \<in> set archivePrefixNames) (archiverStorageEnv api db st)"
    by (rule envList_archive_filter [OF h3 h1 h2 head archivePrefixNames_wal_disjoint])
  then have "filter isArchivePrefix envList = filter isArchivePrefix (archiverStorageEnv api db st)"
    by (simp add: isArchivePrefix_def [abs_def])
  then show first: "filter isArchivePrefix envList = take 1 (archivePrefixCandidates api db st)"
    by (simp add: archiverStorageEnv_filter)
  {
    assume "S3 st \<noteq> None"
    then obtain s3 where "S3 st = Some s3" by auto
    then have "take 1 (archivePrefixCandidates api db st)
        = [envVar ''ARCHIVE_S3_PREFIX'' (''s3://'' @ s3_Bucket s3 @ ''/'' @ WalDataDir api db)]"
      by (rule archivePrefixCandidates_S3)
    with first have f: "filter isArchivePrefix envList
        = [envVar ''ARCHIVE_S3_PREFIX'' (''s3://'' @ s3_Bucket s3 @ ''/'' @ WalDataDir api db)]"
      by (simp only:)
    from filter_isArchivePrefix_names [OF f]
    show "''ARCHIVE_S3_PREFIX'' \<in> set (map e_Name envList)"
      and "''ARCHIVE_GS_PREFIX'' \<notin> set (map e_Name envList)" by simp_all
  }
next
  fix walEnv
  assume "walRecoveryConfig wal = Inr walEnv"
  then show "filter isRestorePrefix walEnv = take 1 (restorePrefixCandidates wal)"
    by (rule walRecoveryConfig_prefix)
qed

theorem backend_selection_first_match_witness:
  "(\<exists>envList. ensureCombinedNode_envList exampleApi (archivingDB s3AndGcsStorage) = Inr envList
      \<and> filter isArchivePrefix envList
          = [envVar ''ARCHIVE_S3_PREFIX'' ''s3://backups/kubedb/demo/pg/archive'']
      \<and> ''ARCHIVE_S3_PREFIX'' \<in> set (map e_Name envList)
      \<and> ''ARCHIVE_GS_PREFIX'' \<notin> set (map e_Name envList))
   \<and> (\<exists>walEnv.
        walRecoveryConfig (exampleWAL (\<lambda>b. b\<lparr>S3 := Some exampleS3, GCS := Some exampleGCS\<rparr>) None)
          = Inr walEnv
        \<and> filter isRestorePrefix walEnv = [envVar ''RESTORE_S3_PREFIX'' ''s3://backups/pg''])"
proof -
  let ?db = "archivingDB s3AndGcsStorage"
  let ?wal = "exampleWAL (\<lambda>b. b\<lparr>S3 := Some exampleS3, GCS := Some exampleGCS\<rparr>) None"
  obtain envList where e: "ensureCombinedNode_envList exampleApi ?db = Inr envList"
    by (simp add: archivingDB_envList)
  obtain walEnv where w: "walRecoveryConfig ?wal = Inr walEnv"
    by (simp add: walRecoveryConfig_cases exampleWAL_simps)
  have le: "set [LeaseDurationEnv exampleApi, RenewDeadlineEnv exampleApi, RetryPeriodEnv exampleApi]
              \<inter> set archivePrefixNames = {}"
    by (simp add: exampleApi_env_simps archivePrefixNames_def)
  have s3: "S3 s3AndGcsStorage \<noteq> None" by (simp add: s3AndGcsStorage_def)
  note fm = backend_selection_first_match [of ?db exampleApi ?wal]
  from fm e le s3 have a: "filter isArchivePrefix envList
        = take 1 (archivePrefixCandidates exampleApi ?db s3AndGcsStorage)"
    and b: "''ARCHIVE_S3_PREFIX'' \<in> set (map e_Name envList)"
    and c: "''ARCHIVE_GS_PREFIX'' \<notin> set (map e_Name envList)"
    by (simp_all add: archivingDB_simps)
  from fm w have d: "filter isRestorePrefix walEnv = take 1 (restorePrefixCandidates ?wal)"
    by simp
  have a': "take 1 (archivePrefixCandidates exampleApi ?db s3AndGcsStorage)
        = [envVar ''ARCHIVE_S3_PREFIX'' ''s3://backups/kubedb/demo/pg/archive'']"
    by (simp add: archivePrefixCandidates_def s3AndGcsStorage_def exampleS3_def
          exampleApi_env_simps archivingDB_simps)
  have d': "take 1 (restorePrefixCandidates ?wal) = [envVar ''RESTORE_S3_PREFIX'' ''s3://backups/pg'']"
    by (simp add: restorePrefixCandidates_def exampleWAL_simps exampleS3_def)
  from e w a b c d a' d' show ?thesis by simp
qed

lemma single_name_filter: "(\<lambda>e. e_Name e = n) = (\<lambda>e. e_Name e \<in> {n})"
  by auto

lemma archiverStorageEnv_S3_endpoint:
  "S3 st = Some s3 \<Longrightarrow>
     filter (\<lambda>e. e_Name e \<in> {''ARCHIVE_S3_ENDPOINT''}) (archiverStorageEnv api db st)
       = (if s3_Endpoint s3 \<noteq> [] \<and> \<not> strings_HasSuffix (s3_Endpoint s3) ''.amazonaws.com''
          then [envVar ''ARCHIVE_S3_ENDPOINT'' (s3_Endpoint s3)] else [])"
  by (simp add: archiverStorageEnv_def envVar_def)

lemma archiverStorageEnv_S3_region:
  "S3 st = Some s3 \<Longrightarrow>
     filter (\<lambda>e. e_Name e \<in> {''ARCHIVE_S3_REGION''}) (archiverStorageEnv api db st)
       = (if s3_Region s3 \<noteq> [] then [envVar ''ARCHIVE_S3_REGION'' (s3_Region s3)] else [])"
  by (simp add: archiverStorageEnv_def envVar_def)

lemma mem_names_filter:
  "(n \<in> set (map e_Name envList)) = (filter (\<lambda>e. e_Name e = n) envList \<noteq> [])"
  by (auto simp: filter_empty_conv)

text \<open>C5. For S3 archive storage, the derived environment has the variable
  \<^verbatim>\<open>ARCHIVE_S3_ENDPOINT\<close> (once, with the endpoint as its value) if and only if the endpoint
  is non-empty and does not end with \<^verbatim>\<open>.amazonaws.com\<close>, and the variable
  \<^verbatim>\<open>ARCHIVE_S3_REGION\<close> if and only if the region is non-empty. The names of the three
  leader-election variables are not in the source files; they are taken to differ from
  these two names.\<close>

theorem archive_S3_endpoint_and_region:
  assumes "Archiver (pg_Spec db) = Some archiver" and "arch_Storage archiver = Some st"
      and "S3 st = Some s3" and "ensureCombinedNode_envList api db = Inr envList"
      and "set [LeaseDurationEnv api, RenewDeadlineEnv api, RetryPeriodEnv api]
             \<inter> {''ARCHIVE_S3_ENDPOINT'', ''ARCHIVE_S3_REGION''} = {}"
  shows "filter (\<lambda>e. e_Name e = ''ARCHIVE_S3_ENDPOINT'') envList
           = (if s3_Endpoint s3 \<noteq> [] \<and> \<not> strings_HasSuffix (s3_Endpoint s3) ''.amazonaws.com''
              then [envVar ''ARCHIVE_S3_ENDPOINT'' (s3_Endpoint s3)] else [])
       \<and> (''ARCHIVE_S3_ENDPOINT'' \<in> set (map e_Name envList))
           = (s3_Endpoint s3 \<noteq> [] \<and> \<not> strings_HasSuffix (s3_Endpoint s3) ''.amazonaws.com'')
       \<and> filter (\<lambda>e. e_Name e = ''ARCHIVE_S3_REGION'') envList
           = (if s3_Region s3 \<noteq> [] then [envVar ''ARCHIVE_S3_REGION'' (s3_Region s3)] else [])
       \<and> (''ARCHIVE_S3_REGION'' \<in> set (map e_Name envList)) = (s3_Region s3 \<noteq> [])"
proof -
  have h1: "{''ARCHIVE_S3_ENDPOINT''} \<inter> set (headEnvNames api) = {}"
    using assms(5) by (intro archivePrefix_head_disjoint) auto
  have h2: "{''ARCHIVE_S3_REGION''} \<inter> set (headEnvNames api) = {}"
    using assms(5) by (intro archivePrefix_head_disjoint) auto
  have w1: "{''ARCHIVE_S3_ENDPOINT''} \<inter> set walEnvNames = {}"
    by (simp add: walEnvNames_def)
  have w2: "{''ARCHIVE_S3_REGION''} \<inter> set walEnvNames = {}"
    by (simp add: walEnvNames_def)
  have e: "filter (\<lambda>e. e_Name e = ''ARCHIVE_S3_ENDPOINT'') envList
           = (if s3_Endpoint s3 \<noteq> [] \<and> \<not> strings_HasSuffix (s3_Endpoint s3) ''.amazonaws.com''
              then [envVar ''ARCHIVE_S3_ENDPOINT'' (s3_Endpoint s3)] else [])"
    unfolding single_name_filter
    by (simp only: envList_archive_filter [OF assms(4) assms(1) assms(2) h1 w1]
          archiverStorageEnv_S3_endpoint [OF assms(3)])
  have r: "filter (\<lambda>e. e_Name e = ''ARCHIVE_S3_REGION'') envList
           = (if s3_Region s3 \<noteq> [] then [envVar ''ARCHIVE_S3_REGION'' (s3_Region s3)] else [])"
    unfolding single_name_filter
    by (simp only: envList_archive_filter [OF assms(4) assms(1) assms(2) h2 w2]
          archiverStorageEnv_S3_region [OF assms(3)])
  have e': "(''ARCHIVE_S3_ENDPOINT'' \<in> set (map e_Name envList))
           = (s3_Endpoint s3 \<noteq> [] \<and> \<not> strings_HasSuffix (s3_Endpoint s3) ''.amazonaws.com'')"
    unfolding mem_names_filter e by simp
  have r': "(''ARCHIVE_S3_REGION'' \<in> set (map e_Name envList)) = (s3_Region s3 \<noteq> [])"
    unfolding mem_names_filter r by simp
  from e e' r r' show ?thesis by blast
qed

theorem archive_S3_endpoint_and_region_witness:
  "(\<exists>envList. ensureCombinedNode_envList exampleApi (archivingDB (s3Storage ''minio.example.com'' [])) = Inr envList
      \<and> filter (\<lambda>e. e_Name e = ''ARCHIVE_S3_ENDPOINT'') envList
          = [envVar ''ARCHIVE_S3_ENDPOINT'' ''minio.example.com'']
      \<and> ''ARCHIVE_S3_REGION'' \<notin> set (map e_Name envList))
   \<and> (\<exists>envList. ensureCombinedNode_envList exampleApi
          (archivingDB (s3Storage ''s3.us-east-1.amazonaws.com'' ''us-east-1'')) = Inr envList
      \<and> ''ARCHIVE_S3_ENDPOINT'' \<notin> set (map e_Name envList)
      \<and> ''ARCHIVE_S3_REGION'' \<in> set (map e_Name envList))"
proof -
  let ?st1 = "s3Storage ''minio.example.com'' []"
  let ?st2 = "s3Storage ''s3.us-east-1.amazonaws.com'' ''us-east-1''"
  obtain l1 where e1: "ensureCombinedNode_envList exampleApi (archivingDB ?st1) = Inr l1"
    by (simp add: archivingDB_envList)
  obtain l2 where e2: "ensureCombinedNode_envList exampleApi (archivingDB ?st2) = Inr l2"
    by (simp add: archivingDB_envList)
  have le: "set [LeaseDurationEnv exampleApi, RenewDeadlineEnv exampleApi, RetryPeriodEnv exampleApi]
              \<inter> {''ARCHIVE_S3_ENDPOINT'', ''ARCHIVE_S3_REGION''} = {}"
    by (simp add: exampleApi_env_simps)
  have s1: "S3 ?st1 = Some (exampleS3\<lparr>s3_Endpoint := ''minio.example.com'', s3_Region := []\<rparr>)"
    by (simp add: s3Storage_def)
  have s2: "S3 ?st2 = Some (exampleS3\<lparr>s3_Endpoint := ''s3.us-east-1.amazonaws.com'',
                                       s3_Region := ''us-east-1''\<rparr>)"
    by (simp add: s3Storage_def)
  from archive_S3_endpoint_and_region [OF archivingDB_simps(1) _ s1 e1 le]
  have a: "filter (\<lambda>e. e_Name e = ''ARCHIVE_S3_ENDPOINT'') l1
          = [envVar ''ARCHIVE_S3_ENDPOINT'' ''minio.example.com'']"
    and b: "''ARCHIVE_S3_REGION'' \<notin> set (map e_Name l1)"
    by (simp_all add: strings_HasSuffix_def)
  from archive_S3_endpoint_and_region [OF archivingDB_simps(1) _ s2 e2 le]
  have c: "''ARCHIVE_S3_ENDPOINT'' \<notin> set (map e_Name l2)"
    and d: "''ARCHIVE_S3_REGION'' \<in> set (map e_Name l2)"
    by (simp_all add: strings_HasSuffix_def)
  from e1 e2 a b c d show ?thesis by blast
qed


section \<open>Properties of the service reconciliation\<close>

lemma ensureService_multi_replica:
  assumes "1 < sint (replicasOf db)"
      and "ensurePrimaryService api K c db = (c1, vt1, None)"
      and "ensureStandbyService api K
             (if vt1 \<noteq> VerbUnchanged
              then Eventf api db (''Successfully '' @ verbString vt1 @ '' Service'') c1 else c1) db
             = (c2, vt2, None)"
  shows "ensureService api K c db
           = (if vt2 \<noteq> VerbUnchanged
              then Eventf api db (''Successfully '' @ verbString vt2 @ '' Service'') c2 else c2,
              if vt1 = VerbCreated \<and> vt2 = VerbCreated then VerbCreated
              else if vt1 = VerbPatched \<or> vt2 = VerbPatched then VerbPatched else VerbUnchanged,
              None)"
proof -
  from assms(1) have r: "1 < sint (case Replicas (pg_Spec db) of None \<Rightarrow> 1 | Some r \<Rightarrow> r)"
    by (simp add: replicasOf_def)
  show ?thesis
  proof (cases "vt1 = VerbUnchanged")
    case True
    with assms(3) have s: "ensureStandbyService api K c1 db = (c2, vt2, None)" by simp
    from s r show ?thesis by (simp add: ensureService_def assms(2) Let_def True)
  next
    case False
    with assms(3) have s: "ensureStandbyService api K
        (Eventf api db (''Successfully '' @ verbString vt1 @ '' Service'') c1) db = (c2, vt2, None)"
      by simp
    from s r False show ?thesis by (simp add: ensureService_def assms(2) Let_def)
  qed
qed

lemma ensureService_single_replica:
  assumes "\<not> 1 < sint (replicasOf db)"
      and "ensurePrimaryService api K c db = (c1, vt1, None)"
  shows "ensureService api K c db
           = (if vt1 \<noteq> VerbUnchanged
              then Eventf api db (''Successfully '' @ verbString vt1 @ '' Service'') c1 else c1,
              if vt1 = VerbPatched then VerbPatched else VerbUnchanged, None)"
proof -
  from assms(1) have r: "\<not> 1 < sint (case Replicas (pg_Spec db) of None \<Rightarrow> 1 | Some r \<Rightarrow> r)"
    by (simp add: replicasOf_def)
  show ?thesis
    by (simp add: ensureService_def assms(2) Let_def r)
qed

lemma ensureService_result:
  assumes "ensurePrimaryService api K c db = (c1, vt1, None)"
      and "1 < sint (replicasOf db) \<Longrightarrow>
             snd (ensureStandbyService api K
                    (if vt1 \<noteq> VerbUnchanged
                     then Eventf api db (''Successfully '' @ verbString vt1 @ '' Service'') c1 else c1) db)
               = (vt2, None)"
  shows "snd (ensureService api K c db)
           = (if vt1 = VerbCreated \<and> (if 1 < sint (replicasOf db) then vt2 else VerbUnchanged) = VerbCreated
              then VerbCreated
              else if vt1 = VerbPatched \<or> (if 1 < sint (replicasOf db) then vt2 else VerbUnchanged) = VerbPatched
              then VerbPatched else VerbUnchanged, None)"
proof (cases "1 < sint (replicasOf db)")
  case True
  let ?c1 = "if vt1 \<noteq> VerbUnchanged
             then Eventf api db (''Successfully '' @ verbString vt1 @ '' Service'') c1 else c1"
  from assms(2) [OF True] obtain c2 where
    s: "ensureStandbyService api K ?c1 db = (c2, vt2, None)"
    by (cases "ensureStandbyService api K ?c1 db") auto
  show ?thesis
    using True by (simp add: ensureService_multi_replica [OF True assms(1) s])
next
  case False
  then show ?thesis
    by (simp add: ensureService_single_replica [OF False assms(1)])
qed

lemma combinedOutcome_eq:
  "combinedOutcome vt1 vt2
     = (if vt1 = VerbCreated \<and> vt2 = VerbCreated then VerbCreated
        else if vt1 = VerbPatched \<or> vt2 = VerbPatched then VerbPatched else VerbUnchanged)"
  by (cases vt1; cases vt2; simp)

text \<open>C2. When the primary service is reconciled with outcome \<open>vt1\<close> and, for a replica
  count above 1, the standby service with outcome \<open>vt2\<close>, \<^verbatim>\<open>ensureService\<close> returns the
  combined outcome of the two and no error: Created when both are Created, Patched when
  either is Patched, Unchanged otherwise. (For a replica count of at most 1 the standby
  service is not reconciled and Unchanged stands in for its outcome.)\<close>

theorem ensureService_combined_outcome:
  assumes "ensurePrimaryService api K c db = (c1, vt1, None)"
      and "1 < sint (replicasOf db) \<Longrightarrow>
             snd (ensureStandbyService api K
                    (if vt1 \<noteq> VerbUnchanged
                     then Eventf api db (''Successfully '' @ verbString vt1 @ '' Service'') c1 else c1) db)
               = (vt2, None)"
  shows "snd (ensureService api K c db)
           = (combinedOutcome vt1 (if 1 < sint (replicasOf db) then vt2 else VerbUnchanged), None)"
  unfolding combinedOutcome_eq by (rule ensureService_result [OF assms])


lemma Client_Eventf [simp]: "Client (Eventf api db message c) = Client c"
  by (simp add: Eventf_def)

lemma objectMeta_simps [simp]:
  "Name (objectMeta name namespace) = name" "Namespace (objectMeta name namespace) = namespace"
  by (simp_all add: objectMeta_def)

lemma fake_CreateOrPatchService_absent:
  "fc_Services cl (Namespace meta, Name meta) = None \<Longrightarrow>
     CreateOrPatchService fakeKube cl meta mutate
       = (cl\<lparr>fc_Services := (fc_Services cl)((Namespace meta, Name meta) \<mapsto> mutate (emptyService meta))\<rparr>,
          Inr (mutate (emptyService meta), VerbCreated))"
  by (simp add: fakeKube_def Reconcile_def)

lemma ensurePrimaryService_fake_absent:
  assumes "fc_Services (Client c) (Namespace db, OffshootName api db) = None"
  shows "ensurePrimaryService api fakeKube c db
           = (c\<lparr>Client := (Client c)\<lparr>fc_Services :=
                   (fc_Services (Client c))((Namespace db, OffshootName api db) \<mapsto>
                      serviceMutator api db (NewControllerRef api db) (ServiceTemplate (pg_Spec db))
                        (PostgresPodPrimary api) (PostgresPrimaryServicePortName api)
                        (emptyService (objectMeta (OffshootName api db) (Namespace db))))\<rparr>\<rparr>,
              VerbCreated, None)"
  using assms
  by (simp add: ensurePrimaryService_def Let_def fake_CreateOrPatchService_absent verbAndError_def)

lemma ensureStandbyService_fake_absent:
  assumes "fc_Services (Client c) (Namespace db, StandbyServiceName api db) = None"
  shows "ensureStandbyService api fakeKube c db
           = (c\<lparr>Client := (Client c)\<lparr>fc_Services :=
                   (fc_Services (Client c))((Namespace db, StandbyServiceName api db) \<mapsto>
                      serviceMutator api db (NewControllerRef api db) (ReplicaServiceTemplate (pg_Spec db))
                        (PostgresPodStandby api) (PostgresStandbyServicePortName api)
                        (emptyService (objectMeta (StandbyServiceName api db) (Namespace db))))\<rparr>\<rparr>,
              VerbCreated, None)"
  using assms
  by (simp add: ensureStandbyService_def Let_def fake_CreateOrPatchService_absent verbAndError_def)

lemma exampleApi_name_simps:
  "OffshootName exampleApi db = Name db"
  "StandbyServiceName exampleApi db = Name db @ ''-standby''"
  by (simp_all add: exampleApi_def)

lemma exampleDB_simps:
  "Name exampleDB = ''pg''" "Namespace exampleDB = ''demo''"
  "Replicas (pg_Spec exampleDB) = None" "Monitor (pg_Spec exampleDB) = None"
  by (simp_all add: exampleDB_def exampleSpec_def)

lemma threeReplicasDB_simps:
  "Name threeReplicasDB = ''pg''" "Namespace threeReplicasDB = ''demo''"
  "Replicas (pg_Spec threeReplicasDB) = Some 3"
  by (simp_all add: threeReplicasDB_def withSpec_def exampleDB_def)

lemma exampleController_simps:
  "fc_Services (Client exampleController) = Map.empty"
  "fc_StatefulSets (Client exampleController) = Map.empty"
  "Recorder exampleController = []"
  by (simp_all add: exampleController_def)

text \<open>The two services of the examples, as the mutator makes them from nothing.\<close>

lemma created_services:
  assumes "fc_Services (Client c) = Map.empty" and "Name db = ''pg''" and "Namespace db = ''demo''"
  shows "\<exists>obj1. ensurePrimaryService exampleApi fakeKube c db
           = (c\<lparr>Client := (Client c)\<lparr>fc_Services := [(''demo'', ''pg'') \<mapsto> obj1]\<rparr>\<rparr>,
              VerbCreated, None)
         \<and> (\<exists>obj2. ensureStandbyService exampleApi fakeKube
                (Eventf exampleApi db ''Successfully created Service''
                   (c\<lparr>Client := (Client c)\<lparr>fc_Services := [(''demo'', ''pg'') \<mapsto> obj1]\<rparr>\<rparr>)) db
              = ((Eventf exampleApi db ''Successfully created Service''
                   (c\<lparr>Client := (Client c)\<lparr>fc_Services := [(''demo'', ''pg'') \<mapsto> obj1]\<rparr>\<rparr>))
                 \<lparr>Client := (Client c)\<lparr>fc_Services :=
                    [(''demo'', ''pg'') \<mapsto> obj1, (''demo'', ''pg-standby'') \<mapsto> obj2]\<rparr>\<rparr>,
                 VerbCreated, None))"
proof -
  let ?obj1 = "serviceMutator exampleApi db (NewControllerRef exampleApi db) (ServiceTemplate (pg_Spec db))
                 (PostgresPodPrimary exampleApi) (PostgresPrimaryServicePortName exampleApi)
                 (emptyService (objectMeta (OffshootName exampleApi db) (Namespace db)))"
  let ?obj2 = "serviceMutator exampleApi db (NewControllerRef exampleApi db) (ReplicaServiceTemplate (pg_Spec db))
                 (PostgresPodStandby exampleApi) (PostgresStandbyServicePortName exampleApi)
                 (emptyService (objectMeta (StandbyServiceName exampleApi db) (Namespace db)))"
  let ?c1 = "c\<lparr>Client := (Client c)\<lparr>fc_Services := [(''demo'', ''pg'') \<mapsto> ?obj1]\<rparr>\<rparr>"
  let ?c1e = "Eventf exampleApi db ''Successfully created Service'' ?c1"
  have "fc_Services (Client c) (Namespace db, OffshootName exampleApi db) = None"
    by (simp add: assms)
  from ensurePrimaryService_fake_absent [OF this]
  have p: "ensurePrimaryService exampleApi fakeKube c db = (?c1, VerbCreated, None)"
    by (simp add: assms exampleApi_name_simps)
  have "fc_Services (Client ?c1e) (Namespace db, StandbyServiceName exampleApi db) = None"
    by (simp add: assms exampleApi_name_simps)
  from ensureStandbyService_fake_absent [OF this]
  have s: "ensureStandbyService exampleApi fakeKube ?c1e db
      = (?c1e\<lparr>Client := (Client c)\<lparr>fc_Services :=
           [(''demo'', ''pg'') \<mapsto> ?obj1, (''demo'', ''pg-standby'') \<mapsto> ?obj2]\<rparr>\<rparr>,
         VerbCreated, None)"
    by (simp add: assms exampleApi_name_simps)
  from p s show ?thesis by blast
qed

theorem ensureService_combined_outcome_witness:
  "snd (ensureService exampleApi fakeKube exampleController threeReplicasDB) = (VerbCreated, None)"
proof -
  let ?db = threeReplicasDB and ?c = exampleController
  from created_services [of ?c ?db] obtain obj1 obj2 where
    p: "ensurePrimaryService exampleApi fakeKube ?c ?db
      = (?c\<lparr>Client := (Client ?c)\<lparr>fc_Services := [(''demo'', ''pg'') \<mapsto> obj1]\<rparr>\<rparr>, VerbCreated, None)"
    and s: "ensureStandbyService exampleApi fakeKube
                (Eventf exampleApi ?db ''Successfully created Service''
                   (?c\<lparr>Client := (Client ?c)\<lparr>fc_Services := [(''demo'', ''pg'') \<mapsto> obj1]\<rparr>\<rparr>)) ?db
              = ((Eventf exampleApi ?db ''Successfully created Service''
                   (?c\<lparr>Client := (Client ?c)\<lparr>fc_Services := [(''demo'', ''pg'') \<mapsto> obj1]\<rparr>\<rparr>))
                 \<lparr>Client := (Client ?c)\<lparr>fc_Services :=
                    [(''demo'', ''pg'') \<mapsto> obj1, (''demo'', ''pg-standby'') \<mapsto> obj2]\<rparr>\<rparr>,
                 VerbCreated, None)"
    by (auto simp: exampleController_simps threeReplicasDB_simps)
  have r: "1 < sint (replicasOf ?db)"
    by (simp add: replicasOf_def threeReplicasDB_simps)
  from ensureService_combined_outcome [OF p, of VerbCreated] s r
  show ?thesis by simp
qed

text \<open>C3, on the code: for the database \<^verbatim>\<open>demo/pg\<close> with no replica count (so 1) and an
  empty control plane, \<^verbatim>\<open>ensurePrimaryService\<close> creates the primary service and returns
  Created, no standby service is reconciled (the store has none afterwards), one event
  ``Successfully created Service'' is recorded, and \<^verbatim>\<open>ensureService\<close> returns Unchanged:
  the outcome does not reflect the primary's Created. With three replicas both services
  are created and the outcome is Created.\<close>

theorem ensureService_single_replica_created:
  "Replicas (pg_Spec exampleDB) = None
   \<and> snd (ensurePrimaryService exampleApi fakeKube exampleController exampleDB) = (VerbCreated, None)
   \<and> snd (ensureService exampleApi fakeKube exampleController exampleDB) = (VerbUnchanged, None)
   \<and> fc_Services (Client (fst (ensureService exampleApi fakeKube exampleController exampleDB)))
        (''demo'', ''pg'') \<noteq> None
   \<and> fc_Services (Client (fst (ensureService exampleApi fakeKube exampleController exampleDB)))
        (''demo'', ''pg-standby'') = None
   \<and> map ev_Message (Recorder (fst (ensureService exampleApi fakeKube exampleController exampleDB)))
        = [''Successfully created Service'']
   \<and> snd (ensureService exampleApi fakeKube exampleController threeReplicasDB) = (VerbCreated, None)
   \<and> fc_Services (Client (fst (ensureService exampleApi fakeKube exampleController threeReplicasDB)))
        (''demo'', ''pg-standby'') \<noteq> None"
proof -
  let ?db = exampleDB and ?c = exampleController
  from created_services [of ?c ?db] obtain obj1 where
    p: "ensurePrimaryService exampleApi fakeKube ?c ?db
      = (?c\<lparr>Client := (Client ?c)\<lparr>fc_Services := [(''demo'', ''pg'') \<mapsto> obj1]\<rparr>\<rparr>, VerbCreated, None)"
    by (auto simp: exampleController_simps exampleDB_simps)
  have r: "\<not> 1 < sint (replicasOf ?db)"
    by (simp add: replicasOf_def exampleDB_simps)
  note one = ensureService_single_replica [OF r p]
  let ?db3 = threeReplicasDB
  from created_services [of ?c ?db3] obtain obj3 obj4 where
    p3: "ensurePrimaryService exampleApi fakeKube ?c ?db3
      = (?c\<lparr>Client := (Client ?c)\<lparr>fc_Services := [(''demo'', ''pg'') \<mapsto> obj3]\<rparr>\<rparr>, VerbCreated, None)"
    and s3: "ensureStandbyService exampleApi fakeKube
                (Eventf exampleApi ?db3 ''Successfully created Service''
                   (?c\<lparr>Client := (Client ?c)\<lparr>fc_Services := [(''demo'', ''pg'') \<mapsto> obj3]\<rparr>\<rparr>)) ?db3
              = ((Eventf exampleApi ?db3 ''Successfully created Service''
                   (?c\<lparr>Client := (Client ?c)\<lparr>fc_Services := [(''demo'', ''pg'') \<mapsto> obj3]\<rparr>\<rparr>))
                 \<lparr>Client := (Client ?c)\<lparr>fc_Services :=
                    [(''demo'', ''pg'') \<mapsto> obj3, (''demo'', ''pg-standby'') \<mapsto> obj4]\<rparr>\<rparr>,
                 VerbCreated, None)"
    by (auto simp: exampleController_simps threeReplicasDB_simps)
  have r3: "1 < sint (replicasOf ?db3)"
    by (simp add: replicasOf_def threeReplicasDB_simps)
  have s3': "ensureStandbyService exampleApi fakeKube
      (if VerbCreated \<noteq> VerbUnchanged
       then Eventf exampleApi ?db3 (''Successfully '' @ verbString VerbCreated @ '' Service'')
              (?c\<lparr>Client := (Client ?c)\<lparr>fc_Services := [(''demo'', ''pg'') \<mapsto> obj3]\<rparr>\<rparr>)
       else ?c\<lparr>Client := (Client ?c)\<lparr>fc_Services := [(''demo'', ''pg'') \<mapsto> obj3]\<rparr>\<rparr>) ?db3
     = ((Eventf exampleApi ?db3 ''Successfully created Service''
                   (?c\<lparr>Client := (Client ?c)\<lparr>fc_Services := [(''demo'', ''pg'') \<mapsto> obj3]\<rparr>\<rparr>))
                 \<lparr>Client := (Client ?c)\<lparr>fc_Services :=
                    [(''demo'', ''pg'') \<mapsto> obj3, (''demo'', ''pg-standby'') \<mapsto> obj4]\<rparr>\<rparr>,
                 VerbCreated, None)"
    using s3 by simp
  note three = ensureService_multi_replica [OF r3 p3 s3']
  show ?thesis
    by (simp add: one three p exampleDB_simps Eventf_def exampleController_simps)
qed

text \<open>C8. When the database has no monitoring configuration, or one whose agent's vendor
  is not the Prometheus vendor, \<^verbatim>\<open>ensureStatsService\<close> returns Unchanged and a nil error,
  and the controller (its client and its recorder) is as before: nothing was reconciled.
  This holds for every client, so no call of it can have been made.\<close>

theorem ensureStatsService_soft_skip:
  assumes "Monitor (pg_Spec db) = None
           \<or> (\<exists>monitor. Monitor (pg_Spec db) = Some monitor
                \<and> Vendor api (Agent monitor) \<noteq> VendorPrometheus api)"
  shows "ensureStatsService api K c db = (c, VerbUnchanged, None)"
  using assms by (auto simp: ensureStatsService_def)

theorem ensureStatsService_soft_skip_witness:
  "ensureStatsService exampleApi fakeKube exampleController exampleDB
     = (exampleController, VerbUnchanged, None)
   \<and> ensureStatsService exampleApi fakeKube exampleController otherVendorDB
     = (exampleController, VerbUnchanged, None)"
proof -
  have a: "Monitor (pg_Spec exampleDB) = None
           \<or> (\<exists>monitor. Monitor (pg_Spec exampleDB) = Some monitor
                \<and> Vendor exampleApi (Agent monitor) \<noteq> VendorPrometheus exampleApi)"
    by (simp add: exampleDB_simps)
  have b: "Monitor (pg_Spec otherVendorDB) = None
           \<or> (\<exists>monitor. Monitor (pg_Spec otherVendorDB) = Some monitor
                \<and> Vendor exampleApi (Agent monitor) \<noteq> VendorPrometheus exampleApi)"
    by (simp add: otherVendorDB_def withSpec_def exampleApi_def)
  from ensureStatsService_soft_skip [OF a, of fakeKube exampleController]
    ensureStatsService_soft_skip [OF b, of fakeKube exampleController]
  show ?thesis by simp
qed


section \<open>Properties of the StatefulSet mutator\<close>

lemma podSpec_withPodSpec [simp]: "podSpec (withPodSpec f s) = f (podSpec s)"
  by (simp add: podSpec_def withPodSpec_def)

lemma claims_withPodSpec [simp]:
  "VolumeClaimTemplates (sts_Spec (withPodSpec f s)) = VolumeClaimTemplates (sts_Spec s)"
  by (simp add: withPodSpec_def)

lemma podSpec_withContainer [simp]:
  "podSpec (withContainer i f s)
     = (podSpec s)\<lparr>Containers := (Containers (podSpec s))[i := f (Containers (podSpec s) ! i)]\<rparr>"
  by (simp add: withContainer_def)

lemma claims_withContainer [simp]:
  "VolumeClaimTemplates (sts_Spec (withContainer i f s)) = VolumeClaimTemplates (sts_Spec s)"
  by (simp add: withContainer_def)

lemma names_update_same:
  assumes "c_Name (f (cs ! i)) = c_Name (cs ! i)"
  shows "map c_Name (cs[i := f (cs ! i)]) = map c_Name cs"
proof (cases "i < length cs")
  case True
  then have "(map c_Name cs)[i := c_Name (cs ! i)] = map c_Name cs"
    by (metis list_update_id nth_map)
  with assms show ?thesis by (simp add: map_update)
next
  case False
  then show ?thesis by (simp add: not_less list_update_beyond)
qed

lemma containerNames_withContainer:
  assumes "\<And>c. c_Name (f c) = c_Name c"
  shows "containerNames (withContainer i f s) = containerNames s"
  by (simp add: containerNames_def names_update_same assms)

lemma countVolumes_withContainer [simp]:
  "countVolumes n (withContainer i f s) = countVolumes n s"
  by (simp add: countVolumes_def)

lemma findContainer_found: "(findContainer n cs \<noteq> None) = (n \<in> set (map c_Name cs))"
  by (induction cs) auto

lemma findContainer_names:
  "map c_Name cs = map c_Name cs' \<Longrightarrow> findContainer n cs = findContainer n cs'"
proof (induction cs arbitrary: cs')
  case Nil
  then show ?case by simp
next
  case (Cons c cs)
  then obtain d ds where "cs' = d # ds" by (cases cs') auto
  with Cons show ?case by auto
qed

lemma names_UpsertByName:
  "map key (UpsertByName key xs x)
     = (if key x \<in> set (map key xs) then map key xs else map key xs @ [key x])"
  by (induction xs) auto

lemma count_UpsertByName:
  "key x \<noteq> n \<Longrightarrow>
     length (filter (\<lambda>v. key v = n) (UpsertByName key xs x)) = length (filter (\<lambda>v. key v = n) xs)"
  by (induction xs) auto

lemma mem_UpsertByName: "x \<in> set (UpsertByName key xs x)"
  by (induction xs) auto

lemma names_UpsertByName_mono:
  "n \<in> key ` set xs \<Longrightarrow> n \<in> key ` set (UpsertByName key xs x)"
  by (induction xs) auto

text \<open>The steps before the data volume keep the container of the database.\<close>

lemma setIdentity_podSpec [simp]: "podSpec (setIdentity api db owner replicas s) = podSpec s"
  by (simp add: setIdentity_def podSpec_def EnsureOwnerReference_def Let_def)

lemma upsertPodContainers_names:
  "ResourceSingularPostgres api \<in> set (containerNames (upsertPodContainers api c db pv s))"
  by (simp add: upsertPodContainers_def containerNames_def UpsertContainer_def names_UpsertByName
        postgresContainer_def)

lemma upsertPodContainers_count [simp]:
  "countVolumes n (upsertPodContainers api c db pv s) = countVolumes n s"
  by (simp add: upsertPodContainers_def countVolumes_def)

lemma upsertEnv_names [simp]: "containerNames (upsertEnv api s db envs) = containerNames s"
  by (simp add: upsertEnv_def Let_def containerNames_withContainer split: option.splits)

lemma upsertEnv_count [simp]: "countVolumes n (upsertEnv api s db envs) = countVolumes n s"
  by (simp add: upsertEnv_def Let_def split: option.splits)

lemma upsertUserEnv_names [simp]: "containerNames (upsertUserEnv api s db) = containerNames s"
  by (simp add: upsertUserEnv_def containerNames_withContainer split: option.splits)

lemma upsertUserEnv_count [simp]: "countVolumes n (upsertUserEnv api s db) = countVolumes n s"
  by (simp add: upsertUserEnv_def split: option.splits)

lemma setScheduling_names [simp]: "containerNames (setScheduling db s) = containerNames s"
  by (simp add: setScheduling_def containerNames_def Let_def)

lemma setScheduling_count [simp]: "countVolumes n (setScheduling db s) = countVolumes n s"
  by (simp add: setScheduling_def countVolumes_def Let_def)

lemma upsertMonitoringContainer_names:
  "n \<in> set (containerNames s) \<Longrightarrow> n \<in> set (containerNames (upsertMonitoringContainer api s db pv))"
  by (auto simp: upsertMonitoringContainer_def containerNames_def UpsertContainer_def
        Let_def split: option.splits intro: names_UpsertByName_mono)

lemma upsertMonitoringContainer_count [simp]:
  "countVolumes n (upsertMonitoringContainer api s db pv) = countVolumes n s"
  by (simp add: upsertMonitoringContainer_def countVolumes_def Let_def split: option.splits)

lemma upsertMountAndVolume_names [simp]:
  "containerNames (upsertMountAndVolume api m v s) = containerNames s"
proof (cases "findContainer (ResourceSingularPostgres api) (Containers (podSpec s))")
  case None
  then show ?thesis by (simp add: upsertMountAndVolume_def)
next
  case (Some i)
  have "containerNames
          (withContainer i (\<lambda>c. c\<lparr>c_VolumeMounts := UpsertVolumeMount (c_VolumeMounts c) m\<rparr>) s)
        = containerNames s"
    by (rule containerNames_withContainer) simp
  then show ?thesis
    by (simp add: upsertMountAndVolume_def Some containerNames_def)
qed

lemma upsertMountAndVolume_count:
  "n \<noteq> v_Name v \<Longrightarrow> countVolumes n (upsertMountAndVolume api m v s) = countVolumes n s"
  by (auto simp: upsertMountAndVolume_def countVolumes_def UpsertVolume_def count_UpsertByName
        split: option.splits)

lemma attachSecrets_names [simp]: "containerNames (attachSecrets api db s) = containerNames s"
  by (simp add: attachSecrets_def upsertArchiveSecret_def upsertInitWalSecret_def
        upsertInitScript_def Let_def split: option.splits)

lemma attachSecrets_count:
  "n \<notin> {''wal-g-archive'', ''wal-g-restore'', ''initial-script''} \<Longrightarrow>
     countVolumes n (attachSecrets api db s) = countVolumes n s"
  by (simp add: attachSecrets_def upsertArchiveSecret_def upsertInitWalSecret_def
        upsertInitScript_def secretVolume_def upsertMountAndVolume_count Let_def
        split: option.splits)

lemma upsertShm_names [simp]: "containerNames (upsertShm api s) = containerNames s"
  by (simp add: upsertShm_def)

lemma upsertShm_count:
  "n \<noteq> ''shared-memory'' \<Longrightarrow> countVolumes n (upsertShm api s) = countVolumes n s"
  by (simp add: upsertShm_def emptyDirVolume_def upsertMountAndVolume_count)

lemma upsertCustomConfig_count:
  "n \<noteq> ''custom-config'' \<Longrightarrow> countVolumes n (upsertCustomConfig api s db) = countVolumes n s"
  by (simp add: upsertCustomConfig_def secretVolume_def upsertMountAndVolume_count
        split: option.splits)

lemma setServiceAccountAndStrategy_count [simp]:
  "countVolumes n (setServiceAccountAndStrategy db s) = countVolumes n s"
  by (simp add: setServiceAccountAndStrategy_def countVolumes_def podSpec_def withPodSpec_def Let_def)

text \<open>The local volumes: with a container in the pod, each is appended.\<close>

lemma appendLocalVolume_ok:
  assumes "containerNames s \<noteq> []"
  shows "\<exists>s'. appendLocalVolume name l s = Inr s'
           \<and> containerNames s' = containerNames s
           \<and> VolumeClaimTemplates (sts_Spec s') = VolumeClaimTemplates (sts_Spec s)
           \<and> (\<forall>n. countVolumes n s' = countVolumes n s + (if n = name then 1 else 0))"
proof -
  from assms obtain c0 cs where cs: "Containers (podSpec s) = c0 # cs"
    by (cases "Containers (podSpec s)") (auto simp: containerNames_def)
  let ?s1 = "withPodSpec (\<lambda>p. p\<lparr>Volumes := Volumes (podSpec s)
                 @ [\<lparr>v_Name = name, v_VolumeSource = l_VolumeSource l\<rparr>]\<rparr>) s"
  let ?s2 = "withContainer 0
               (\<lambda>c. c\<lparr>c_VolumeMounts := c_VolumeMounts c0
                        @ [\<lparr>m_Name = name, m_MountPath = MountPath l\<rparr>]\<rparr>) ?s1"
  have r: "appendLocalVolume name l s = Inr ?s2"
    by (simp add: appendLocalVolume_def Let_def cs)
  have n: "containerNames ?s2 = containerNames s"
    by (simp add: containerNames_def cs)
  have v: "\<forall>n. countVolumes n ?s2 = countVolumes n s + (if n = name then 1 else 0)"
    by (simp add: countVolumes_def)
  from r n v show ?thesis by simp
qed

lemma upsertLocalVolumes_ok:
  assumes "containerNames s \<noteq> []"
  shows "\<exists>s'. upsertLocalVolumes s db = Inr s'
           \<and> containerNames s' = containerNames s
           \<and> VolumeClaimTemplates (sts_Spec s') = VolumeClaimTemplates (sts_Spec s)
           \<and> (\<forall>n. countVolumes n s' = countVolumes n s
                  + (if archiverLocal db \<noteq> None \<and> n = ''local-archive'' then 1 else 0)
                  + (if initLocal db \<noteq> None \<and> n = ''local-init'' then 1 else 0))"
proof -
  have none: "Archiver (pg_Spec db) = None \<and> Init (pg_Spec db) = None
                \<Longrightarrow> archiverLocal db = None \<and> initLocal db = None"
    by (simp add: archiverLocal_def initLocal_def)
  have "\<exists>s1. (case archiverLocal db of None \<Rightarrow> Inr s
                | Some l \<Rightarrow> appendLocalVolume ''local-archive'' l s) = Inr s1
            \<and> containerNames s1 = containerNames s
            \<and> VolumeClaimTemplates (sts_Spec s1) = VolumeClaimTemplates (sts_Spec s)
            \<and> (\<forall>n. countVolumes n s1 = countVolumes n s
                  + (if archiverLocal db \<noteq> None \<and> n = ''local-archive'' then 1 else 0))"
  proof (cases "archiverLocal db")
    case None
    then show ?thesis by simp
  next
    case (Some l)
    with appendLocalVolume_ok [OF assms, of "''local-archive''" l] show ?thesis by simp
  qed
  then obtain s1 where a: "(case archiverLocal db of None \<Rightarrow> Inr s
                       | Some l \<Rightarrow> appendLocalVolume ''local-archive'' l s) = Inr s1"
    and a1: "containerNames s1 = containerNames s"
    and a2: "VolumeClaimTemplates (sts_Spec s1) = VolumeClaimTemplates (sts_Spec s)"
    and a3: "\<forall>n. countVolumes n s1 = countVolumes n s
                  + (if archiverLocal db \<noteq> None \<and> n = ''local-archive'' then 1 else 0)"
    by blast
  from assms a1 have ne: "containerNames s1 \<noteq> []" by simp
  have "\<exists>s2. (case initLocal db of None \<Rightarrow> Inr s1
                | Some l \<Rightarrow> appendLocalVolume ''local-init'' l s1) = Inr s2
            \<and> containerNames s2 = containerNames s1
            \<and> VolumeClaimTemplates (sts_Spec s2) = VolumeClaimTemplates (sts_Spec s1)
            \<and> (\<forall>n. countVolumes n s2 = countVolumes n s1
                  + (if initLocal db \<noteq> None \<and> n = ''local-init'' then 1 else 0))"
  proof (cases "initLocal db")
    case None
    then show ?thesis by simp
  next
    case (Some l)
    with appendLocalVolume_ok [OF ne, of "''local-init''" l] show ?thesis by simp
  qed
  then obtain s2 where b: "(case initLocal db of None \<Rightarrow> Inr s1
                       | Some l \<Rightarrow> appendLocalVolume ''local-init'' l s1) = Inr s2"
    and b1: "containerNames s2 = containerNames s1"
    and b2: "VolumeClaimTemplates (sts_Spec s2) = VolumeClaimTemplates (sts_Spec s1)"
    and b3: "\<forall>n. countVolumes n s2 = countVolumes n s1
                  + (if initLocal db \<noteq> None \<and> n = ''local-init'' then 1 else 0)"
    by blast
  show ?thesis
  proof (cases "Archiver (pg_Spec db) \<noteq> None \<or> Init (pg_Spec db) \<noteq> None")
    case True
    then have "upsertLocalVolumes s db = Inr s2"
      using a b by (simp add: upsertLocalVolumes_def)
    with a1 a2 a3 b1 b2 b3 show ?thesis by simp
  next
    case False
    with none have "archiverLocal db = None" "initLocal db = None" by simp_all
    with False show ?thesis by (simp add: upsertLocalVolumes_def)
  qed
qed


text \<open>\<^verbatim>\<open>upsertDataVolume\<close>, for a StatefulSet that has the container of the database.\<close>

lemma upsertDataVolume_start:
  assumes "ResourceSingularPostgres api \<in> set (containerNames s)"
  shows "\<exists>s1 i. upsertLocalVolumes s db = Inr s1
           \<and> findContainer (ResourceSingularPostgres api) (Containers (podSpec s1)) = Some i
           \<and> VolumeClaimTemplates (sts_Spec s1) = VolumeClaimTemplates (sts_Spec s)
           \<and> (\<forall>n. countVolumes n s1 = countVolumes n s
                  + (if archiverLocal db \<noteq> None \<and> n = ''local-archive'' then 1 else 0)
                  + (if initLocal db \<noteq> None \<and> n = ''local-init'' then 1 else 0))"
proof -
  from assms have "containerNames s \<noteq> []" by auto
  from upsertLocalVolumes_ok [OF this, of db] obtain s1 where
    r: "upsertLocalVolumes s db = Inr s1" and n: "containerNames s1 = containerNames s"
    and v: "VolumeClaimTemplates (sts_Spec s1) = VolumeClaimTemplates (sts_Spec s)"
    and k: "\<forall>n. countVolumes n s1 = countVolumes n s
                  + (if archiverLocal db \<noteq> None \<and> n = ''local-archive'' then 1 else 0)
                  + (if initLocal db \<noteq> None \<and> n = ''local-init'' then 1 else 0)"
    by blast
  from assms n have "ResourceSingularPostgres api \<in> set (map c_Name (Containers (podSpec s1)))"
    by (simp only: containerNames_def)
  then have "findContainer (ResourceSingularPostgres api) (Containers (podSpec s1)) \<noteq> None"
    by (simp only: findContainer_found)
  then obtain i where "findContainer (ResourceSingularPostgres api) (Containers (podSpec s1)) = Some i"
    by auto
  with r v k show ?thesis by blast
qed

lemma upsertDataVolume_ephemeral:
  assumes "ResourceSingularPostgres api \<in> set (containerNames s)"
      and "StorageType (pg_Spec db) = StorageTypeEphemeral api"
  shows "\<exists>s'. upsertDataVolume api s db = Inr (s', db)
           \<and> VolumeClaimTemplates (sts_Spec s') = VolumeClaimTemplates (sts_Spec s)
           \<and> (\<forall>n. n \<noteq> ''data'' \<longrightarrow> countVolumes n s' = countVolumes n s
                  + (if archiverLocal db \<noteq> None \<and> n = ''local-archive'' then 1 else 0)
                  + (if initLocal db \<noteq> None \<and> n = ''local-init'' then 1 else 0))"
proof -
  from upsertDataVolume_start [OF assms(1), of db] obtain s1 i where
    r: "upsertLocalVolumes s db = Inr s1"
    and f: "findContainer (ResourceSingularPostgres api) (Containers (podSpec s1)) = Some i"
    and v: "VolumeClaimTemplates (sts_Spec s1) = VolumeClaimTemplates (sts_Spec s)"
    and k: "\<forall>n. countVolumes n s1 = countVolumes n s
                  + (if archiverLocal db \<noteq> None \<and> n = ''local-archive'' then 1 else 0)
                  + (if initLocal db \<noteq> None \<and> n = ''local-init'' then 1 else 0)"
    by blast
  have c: "\<And>n ed f. n \<noteq> ''data'' \<Longrightarrow>
      countVolumes n (withPodSpec (\<lambda>p. p\<lparr>Volumes := UpsertVolume (Volumes p) (emptyDirVolume ''data'' ed)\<rparr>)
        (withContainer i f s1)) = countVolumes n s1"
    by (simp add: countVolumes_def UpsertVolume_def count_UpsertByName emptyDirVolume_def)
  show ?thesis
    using k by (simp add: upsertDataVolume_def r f assms(2) Let_def v c)
qed

lemma upsertDataVolume_persistent:
  assumes "ResourceSingularPostgres api \<in> set (containerNames s)"
      and "StorageType (pg_Spec db) \<noteq> StorageTypeEphemeral api"
      and "Storage (pg_Spec db) = Some pvc"
  shows "\<exists>s'. upsertDataVolume api s db
             = Inr (s', db\<lparr>pg_Spec := (pg_Spec db)\<lparr>Storage :=
                      Some (if AccessModes pvc = [] then pvc\<lparr>AccessModes := [ReadWriteOnce]\<rparr> else pvc)\<rparr>\<rparr>)
           \<and> VolumeClaimTemplates (sts_Spec s')
               = UpsertVolumeClaim (VolumeClaimTemplates (sts_Spec s))
                   (dataClaim (if AccessModes pvc = [] then pvc\<lparr>AccessModes := [ReadWriteOnce]\<rparr> else pvc))
           \<and> (\<forall>n. countVolumes n s' = countVolumes n s
                  + (if archiverLocal db \<noteq> None \<and> n = ''local-archive'' then 1 else 0)
                  + (if initLocal db \<noteq> None \<and> n = ''local-init'' then 1 else 0))"
proof -
  from upsertDataVolume_start [OF assms(1), of db] obtain s1 i where
    r: "upsertLocalVolumes s db = Inr s1"
    and f: "findContainer (ResourceSingularPostgres api) (Containers (podSpec s1)) = Some i"
    and v: "VolumeClaimTemplates (sts_Spec s1) = VolumeClaimTemplates (sts_Spec s)"
    and k: "\<forall>n. countVolumes n s1 = countVolumes n s
                  + (if archiverLocal db \<noteq> None \<and> n = ''local-archive'' then 1 else 0)
                  + (if initLocal db \<noteq> None \<and> n = ''local-init'' then 1 else 0)"
    by blast
  have c: "\<And>n f t. countVolumes n ((withContainer i f s1)\<lparr>sts_Spec :=
              (sts_Spec (withContainer i f s1))\<lparr>VolumeClaimTemplates := t\<rparr>\<rparr>) = countVolumes n s1"
    by (simp add: countVolumes_def podSpec_def withContainer_def withPodSpec_def)
  show ?thesis
    using k by (simp add: upsertDataVolume_def r f assms(2,3) Let_def v c)
qed

lemma upsertDataVolume_nil_storage:
  assumes "ResourceSingularPostgres api \<in> set (containerNames s)"
      and "StorageType (pg_Spec db) \<noteq> StorageTypeEphemeral api"
      and "Storage (pg_Spec db) = None"
  shows "upsertDataVolume api s db = Inl NilPointerDereference"
proof -
  from upsertDataVolume_start [OF assms(1), of db] obtain s1 i where
    r: "upsertLocalVolumes s db = Inr s1"
    and f: "findContainer (ResourceSingularPostgres api) (Containers (podSpec s1)) = Some i"
    by blast
  show ?thesis
    by (simp add: upsertDataVolume_def r f assms(2,3) Let_def)
qed

lemma dataClaim_simps [simp]: "Name (dataClaim pvc) = ''data''" "pvc_Spec (dataClaim pvc) = pvc"
  by (simp_all add: dataClaim_def)

text \<open>C10. Let the StatefulSet have a container named as the database container (as it
  has where \<^verbatim>\<open>ensureStatefulSet\<close> calls \<^verbatim>\<open>upsertDataVolume\<close>). When the storage type is not
  ephemeral and the spec's storage claim has no access mode, \<^verbatim>\<open>upsertDataVolume\<close> returns
  the database with \<^verbatim>\<open>[ReadWriteOnce]\<close> written into its storage claim, and the claim
  templates are the old ones with the claim named \<^verbatim>\<open>data\<close> upserted, whose spec is the
  storage claim with access modes \<^verbatim>\<open>[ReadWriteOnce]\<close>. When the claim has access modes, the
  database is returned as it was and the template's spec is the storage claim unchanged.
  When the storage type is ephemeral, the claim templates are as before.\<close>

theorem upsertDataVolume_access_modes:
  assumes "ResourceSingularPostgres api \<in> set (containerNames statefulSet)"
  shows "(\<forall>pvc. StorageType (pg_Spec db) \<noteq> StorageTypeEphemeral api
            \<and> Storage (pg_Spec db) = Some pvc \<and> AccessModes pvc = [] \<longrightarrow>
            (\<exists>statefulSet'.
               upsertDataVolume api statefulSet db
                 = Inr (statefulSet',
                        db\<lparr>pg_Spec := (pg_Spec db)\<lparr>Storage := Some (pvc\<lparr>AccessModes := [ReadWriteOnce]\<rparr>)\<rparr>\<rparr>)
               \<and> VolumeClaimTemplates (sts_Spec statefulSet')
                   = UpsertVolumeClaim (VolumeClaimTemplates (sts_Spec statefulSet))
                       (dataClaim (pvc\<lparr>AccessModes := [ReadWriteOnce]\<rparr>))
               \<and> (\<exists>claim \<in> set (VolumeClaimTemplates (sts_Spec statefulSet')).
                      Name claim = ''data'' \<and> pvc_Spec claim = pvc\<lparr>AccessModes := [ReadWriteOnce]\<rparr>)))
       \<and> (\<forall>pvc. StorageType (pg_Spec db) \<noteq> StorageTypeEphemeral api
            \<and> Storage (pg_Spec db) = Some pvc \<and> AccessModes pvc \<noteq> [] \<longrightarrow>
            (\<exists>statefulSet'.
               upsertDataVolume api statefulSet db = Inr (statefulSet', db)
               \<and> VolumeClaimTemplates (sts_Spec statefulSet')
                   = UpsertVolumeClaim (VolumeClaimTemplates (sts_Spec statefulSet)) (dataClaim pvc)
               \<and> (\<exists>claim \<in> set (VolumeClaimTemplates (sts_Spec statefulSet')).
                      Name claim = ''data'' \<and> pvc_Spec claim = pvc)))
       \<and> (StorageType (pg_Spec db) = StorageTypeEphemeral api \<longrightarrow>
            (\<exists>statefulSet'.
               upsertDataVolume api statefulSet db = Inr (statefulSet', db)
               \<and> VolumeClaimTemplates (sts_Spec statefulSet')
                   = VolumeClaimTemplates (sts_Spec statefulSet)))"
proof (intro conjI allI impI)
  fix pvc
  assume h: "StorageType (pg_Spec db) \<noteq> StorageTypeEphemeral api
            \<and> Storage (pg_Spec db) = Some pvc \<and> AccessModes pvc = []"
  then have h1: "StorageType (pg_Spec db) \<noteq> StorageTypeEphemeral api"
    and h2: "Storage (pg_Spec db) = Some pvc" and h3: "AccessModes pvc = []" by simp_all
  from upsertDataVolume_persistent [OF assms h1 h2] h3 obtain s' where
    r: "upsertDataVolume api statefulSet db
          = Inr (s', db\<lparr>pg_Spec := (pg_Spec db)\<lparr>Storage := Some (pvc\<lparr>AccessModes := [ReadWriteOnce]\<rparr>)\<rparr>\<rparr>)"
    and v: "VolumeClaimTemplates (sts_Spec s')
          = UpsertVolumeClaim (VolumeClaimTemplates (sts_Spec statefulSet))
              (dataClaim (pvc\<lparr>AccessModes := [ReadWriteOnce]\<rparr>))"
    by auto
  have "dataClaim (pvc\<lparr>AccessModes := [ReadWriteOnce]\<rparr>) \<in> set (VolumeClaimTemplates (sts_Spec s'))"
    by (simp add: v UpsertVolumeClaim_def mem_UpsertByName)
  then have "\<exists>claim \<in> set (VolumeClaimTemplates (sts_Spec s')).
      Name claim = ''data'' \<and> pvc_Spec claim = pvc\<lparr>AccessModes := [ReadWriteOnce]\<rparr>"
    by (intro bexI [of _ "dataClaim (pvc\<lparr>AccessModes := [ReadWriteOnce]\<rparr>)"]) simp_all
  with r v show "\<exists>statefulSet'.
               upsertDataVolume api statefulSet db
                 = Inr (statefulSet',
                        db\<lparr>pg_Spec := (pg_Spec db)\<lparr>Storage := Some (pvc\<lparr>AccessModes := [ReadWriteOnce]\<rparr>)\<rparr>\<rparr>)
               \<and> VolumeClaimTemplates (sts_Spec statefulSet')
                   = UpsertVolumeClaim (VolumeClaimTemplates (sts_Spec statefulSet))
                       (dataClaim (pvc\<lparr>AccessModes := [ReadWriteOnce]\<rparr>))
               \<and> (\<exists>claim \<in> set (VolumeClaimTemplates (sts_Spec statefulSet')).
                      Name claim = ''data'' \<and> pvc_Spec claim = pvc\<lparr>AccessModes := [ReadWriteOnce]\<rparr>)"
    by blast
next
  fix pvc
  assume h: "StorageType (pg_Spec db) \<noteq> StorageTypeEphemeral api
            \<and> Storage (pg_Spec db) = Some pvc \<and> AccessModes pvc \<noteq> []"
  then have h1: "StorageType (pg_Spec db) \<noteq> StorageTypeEphemeral api"
    and h2: "Storage (pg_Spec db) = Some pvc" and h3: "AccessModes pvc \<noteq> []" by simp_all
  have same: "db\<lparr>pg_Spec := (pg_Spec db)\<lparr>Storage := Some pvc\<rparr>\<rparr> = db"
    using h2 [symmetric] by simp
  from upsertDataVolume_persistent [OF assms h1 h2] h3 same obtain s' where
    r: "upsertDataVolume api statefulSet db = Inr (s', db)"
    and v: "VolumeClaimTemplates (sts_Spec s')
          = UpsertVolumeClaim (VolumeClaimTemplates (sts_Spec statefulSet)) (dataClaim pvc)"
    by auto
  have "dataClaim pvc \<in> set (VolumeClaimTemplates (sts_Spec s'))"
    by (simp add: v UpsertVolumeClaim_def mem_UpsertByName)
  then have "\<exists>claim \<in> set (VolumeClaimTemplates (sts_Spec s')).
      Name claim = ''data'' \<and> pvc_Spec claim = pvc"
    by (intro bexI [of _ "dataClaim pvc"]) simp_all
  with r v show "\<exists>statefulSet'.
               upsertDataVolume api statefulSet db = Inr (statefulSet', db)
               \<and> VolumeClaimTemplates (sts_Spec statefulSet')
                   = UpsertVolumeClaim (VolumeClaimTemplates (sts_Spec statefulSet)) (dataClaim pvc)
               \<and> (\<exists>claim \<in> set (VolumeClaimTemplates (sts_Spec statefulSet')).
                      Name claim = ''data'' \<and> pvc_Spec claim = pvc)"
    by blast
next
  assume "StorageType (pg_Spec db) = StorageTypeEphemeral api"
  from upsertDataVolume_ephemeral [OF assms this]
  show "\<exists>statefulSet'.
               upsertDataVolume api statefulSet db = Inr (statefulSet', db)
               \<and> VolumeClaimTemplates (sts_Spec statefulSet')
                   = VolumeClaimTemplates (sts_Spec statefulSet)"
    by blast
qed

lemma bareStatefulSet_simps:
  "containerNames bareStatefulSet = [''postgres'']"
  "VolumeClaimTemplates (sts_Spec bareStatefulSet) = []"
  by (simp_all add: bareStatefulSet_def containerNames_def postgresContainer_def exampleApi_def
        emptyStatefulSet_def emptyPodSpec_def withPodSpec_def podSpec_def)

theorem upsertDataVolume_access_modes_witness:
  "\<exists>statefulSet'.
     upsertDataVolume exampleApi bareStatefulSet exampleDB
       = Inr (statefulSet',
              exampleDB\<lparr>pg_Spec := (pg_Spec exampleDB)
                \<lparr>Storage := Some (examplePVC\<lparr>AccessModes := [ReadWriteOnce]\<rparr>)\<rparr>\<rparr>)
     \<and> VolumeClaimTemplates (sts_Spec statefulSet')
         = [dataClaim (examplePVC\<lparr>AccessModes := [ReadWriteOnce]\<rparr>)]"
proof -
  have pg: "ResourceSingularPostgres exampleApi \<in> set (containerNames bareStatefulSet)"
    by (simp add: bareStatefulSet_simps exampleApi_def)
  have h: "StorageType (pg_Spec exampleDB) \<noteq> StorageTypeEphemeral exampleApi
            \<and> Storage (pg_Spec exampleDB) = Some examplePVC \<and> AccessModes examplePVC = []"
    by (simp add: exampleDB_def exampleSpec_def exampleApi_def examplePVC_def)
  from upsertDataVolume_access_modes [OF pg, of exampleDB] h
  show ?thesis
    by (auto simp: bareStatefulSet_simps UpsertVolumeClaim_def)
qed


lemma setIdentity_names [simp]:
  "containerNames (setIdentity api db owner replicas s) = containerNames s"
  by (simp add: containerNames_def)

lemma setIdentity_count [simp]:
  "countVolumes n (setIdentity api db owner replicas s) = countVolumes n s"
  by (simp add: countVolumes_def)

text \<open>The mutator returns unless the storage type is persistent and the database has no
  storage claim; and then the result has one more volume named \<^verbatim>\<open>local-archive\<close> than the
  StatefulSet it was given, when the archiver's storage is a local volume.\<close>

lemma ensureStatefulSet_mutator_local_archive:
  assumes "StorageType (pg_Spec db) = StorageTypeEphemeral api \<or> Storage (pg_Spec db) \<noteq> None"
  shows "\<exists>out. ensureStatefulSet_mutator api c db pv envList owner replicas s = Inr out
           \<and> countVolumes ''local-archive'' out
               = countVolumes ''local-archive'' s + (if archiverLocal db \<noteq> None then 1 else 0)"
proof -
  let ?s4 = "setScheduling db (upsertUserEnv api
               (upsertEnv api (upsertPodContainers api c db pv (setIdentity api db owner replicas s))
                  db envList) db)"
  let ?s7 = "upsertShm api (attachSecrets api db (upsertMonitoringContainer api ?s4 db pv))"
  have "ResourceSingularPostgres api \<in> set (containerNames ?s4)"
    by (simp add: upsertPodContainers_names)
  then have pg: "ResourceSingularPostgres api \<in> set (containerNames ?s7)"
    by (simp add: upsertMonitoringContainer_names)
  have cnt: "countVolumes ''local-archive'' ?s7 = countVolumes ''local-archive'' s"
    by (simp add: upsertShm_count attachSecrets_count)
  have m: "ensureStatefulSet_mutator api c db pv envList owner replicas s
      = (case upsertDataVolume api ?s7 db of
           Inl p \<Rightarrow> Inl p
         | Inr (in', db) \<Rightarrow> Inr (setServiceAccountAndStrategy db (upsertCustomConfig api in' db)))"
    by (simp add: ensureStatefulSet_mutator_def Let_def)
  show ?thesis
  proof (cases "StorageType (pg_Spec db) = StorageTypeEphemeral api")
    case True
    from upsertDataVolume_ephemeral [OF pg True] obtain s8 where
      r: "upsertDataVolume api ?s7 db = Inr (s8, db)"
      and k: "\<forall>n. n \<noteq> ''data'' \<longrightarrow> countVolumes n s8 = countVolumes n ?s7
                  + (if archiverLocal db \<noteq> None \<and> n = ''local-archive'' then 1 else 0)
                  + (if initLocal db \<noteq> None \<and> n = ''local-init'' then 1 else 0)"
      by blast
    from k have "countVolumes ''local-archive'' s8
        = countVolumes ''local-archive'' ?s7 + (if archiverLocal db \<noteq> None then 1 else 0)"
      by simp
    with cnt show ?thesis
      by (simp add: m r upsertCustomConfig_count)
  next
    case False
    with assms obtain pvc where p: "Storage (pg_Spec db) = Some pvc" by auto
    from upsertDataVolume_persistent [OF pg False p] obtain s8 db' where
      r: "upsertDataVolume api ?s7 db = Inr (s8, db')"
      and k: "\<forall>n. countVolumes n s8 = countVolumes n ?s7
                  + (if archiverLocal db \<noteq> None \<and> n = ''local-archive'' then 1 else 0)
                  + (if initLocal db \<noteq> None \<and> n = ''local-init'' then 1 else 0)"
      by blast
    from k have "countVolumes ''local-archive'' s8
        = countVolumes ''local-archive'' ?s7 + (if archiverLocal db \<noteq> None then 1 else 0)"
      by simp
    with cnt show ?thesis
      by (simp add: m r upsertCustomConfig_count)
  qed
qed

lemma localArchiveDB_simps:
  "archiverLocal localArchiveDB = Some exampleLocal"
  "Storage (pg_Spec localArchiveDB) = Some examplePVC"
  by (simp_all add: localArchiveDB_def archivingDB_def withSpec_def exampleDB_def exampleSpec_def
        archiverLocal_def noBackend_def)

lemma localArchiveDB_envList:
  "ensureCombinedNode_envList exampleApi localArchiveDB = Inr localArchiveEnv"
  by (simp add: localArchiveDB_def archivingDB_envList archiverStorageEnv_def noBackend_def
        exampleLocal_def localArchiveEnv_def)

text \<open>C1, on the code: for the database \<^verbatim>\<open>demo/pg\<close> that archives to a local volume, the
  mutator of \<^verbatim>\<open>ensureStatefulSet\<close> (with the environment \<^verbatim>\<open>ensureCombinedNode\<close> derives)
  gives, from the empty StatefulSet, one with one volume named \<^verbatim>\<open>local-archive\<close>, and from
  that one a different StatefulSet with two volumes of the name. Reconciling twice with
  this mutator creates the object and then patches it: the second outcome is Patched, not
  Unchanged.\<close>

theorem ensureStatefulSet_mutator_not_idempotent:
  "\<exists>s1 s2 store1 store2.
     localArchiveMutator (emptyStatefulSet (objectMeta ''pg'' ''demo'')) = Inr s1
     \<and> localArchiveMutator s1 = Inr s2
     \<and> countVolumes ''local-archive'' s1 = 1
     \<and> countVolumes ''local-archive'' s2 = 2
     \<and> s2 \<noteq> s1
     \<and> Reconcile Map.empty (''demo'', ''pg'') (emptyStatefulSet (objectMeta ''pg'' ''demo''))
           localArchiveMutator = Inr (store1, s1, VerbCreated)
     \<and> Reconcile store1 (''demo'', ''pg'') (emptyStatefulSet (objectMeta ''pg'' ''demo''))
           localArchiveMutator = Inr (store2, s2, VerbPatched)"
proof -
  let ?blank = "emptyStatefulSet (objectMeta ''pg'' ''demo'')"
  have st: "StorageType (pg_Spec localArchiveDB) = StorageTypeEphemeral exampleApi
            \<or> Storage (pg_Spec localArchiveDB) \<noteq> None"
    by (simp add: localArchiveDB_simps)
  have zero: "countVolumes ''local-archive'' ?blank = 0"
    by (simp add: countVolumes_def emptyStatefulSet_def emptyPodSpec_def podSpec_def)
  from ensureStatefulSet_mutator_local_archive [OF st, of exampleController exampleVersion
      localArchiveEnv "NewControllerRef exampleApi localArchiveDB" 1 ?blank]
  obtain s1 where a: "localArchiveMutator ?blank = Inr s1"
    and a1: "countVolumes ''local-archive'' s1 = 1"
    by (auto simp: localArchiveMutator_def localArchiveDB_simps zero)
  from ensureStatefulSet_mutator_local_archive [OF st, of exampleController exampleVersion
      localArchiveEnv "NewControllerRef exampleApi localArchiveDB" 1 s1]
  obtain s2 where b: "localArchiveMutator s1 = Inr s2"
    and b1: "countVolumes ''local-archive'' s2 = 2"
    by (auto simp: localArchiveMutator_def localArchiveDB_simps a1)
  from a1 b1 have ne: "s2 \<noteq> s1" by auto
  have r1: "Reconcile Map.empty (''demo'', ''pg'') ?blank localArchiveMutator
      = Inr ([(''demo'', ''pg'') \<mapsto> s1], s1, VerbCreated)"
    by (simp add: Reconcile_def a)
  have r2: "Reconcile [(''demo'', ''pg'') \<mapsto> s1] (''demo'', ''pg'') ?blank localArchiveMutator
      = Inr ([(''demo'', ''pg'') \<mapsto> s2], s2, VerbPatched)"
    using ne by (simp add: Reconcile_def b)
  from a b a1 b1 ne r1 r2 show ?thesis by blast
qed





text \<open>The claim templates through the mutator: only \<^verbatim>\<open>upsertDataVolume\<close> changes them, so
  what it does to them is what the mutator of \<^verbatim>\<open>ensureStatefulSet\<close> does, for every
  StatefulSet it is given.\<close>

lemma setIdentity_claims [simp]:
  "VolumeClaimTemplates (sts_Spec (setIdentity api db owner replicas s))
     = VolumeClaimTemplates (sts_Spec s)"
  by (simp add: setIdentity_def EnsureOwnerReference_def Let_def)

lemma upsertPodContainers_claims [simp]:
  "VolumeClaimTemplates (sts_Spec (upsertPodContainers api c db pv s))
     = VolumeClaimTemplates (sts_Spec s)"
  by (simp add: upsertPodContainers_def)

lemma upsertEnv_claims [simp]:
  "VolumeClaimTemplates (sts_Spec (upsertEnv api s db envs)) = VolumeClaimTemplates (sts_Spec s)"
  by (simp add: upsertEnv_def Let_def split: option.splits)

lemma upsertUserEnv_claims [simp]:
  "VolumeClaimTemplates (sts_Spec (upsertUserEnv api s db)) = VolumeClaimTemplates (sts_Spec s)"
  by (simp add: upsertUserEnv_def split: option.splits)

lemma setScheduling_claims [simp]:
  "VolumeClaimTemplates (sts_Spec (setScheduling db s)) = VolumeClaimTemplates (sts_Spec s)"
  by (simp add: setScheduling_def Let_def)

lemma upsertMonitoringContainer_claims [simp]:
  "VolumeClaimTemplates (sts_Spec (upsertMonitoringContainer api s db pv))
     = VolumeClaimTemplates (sts_Spec s)"
  by (simp add: upsertMonitoringContainer_def Let_def split: option.splits)

lemma upsertMountAndVolume_claims [simp]:
  "VolumeClaimTemplates (sts_Spec (upsertMountAndVolume api m v s))
     = VolumeClaimTemplates (sts_Spec s)"
  by (simp add: upsertMountAndVolume_def split: option.splits)

lemma attachSecrets_claims [simp]:
  "VolumeClaimTemplates (sts_Spec (attachSecrets api db s)) = VolumeClaimTemplates (sts_Spec s)"
  by (simp add: attachSecrets_def upsertArchiveSecret_def upsertInitWalSecret_def
        upsertInitScript_def Let_def split: option.splits)

lemma upsertShm_claims [simp]:
  "VolumeClaimTemplates (sts_Spec (upsertShm api s)) = VolumeClaimTemplates (sts_Spec s)"
  by (simp add: upsertShm_def)

lemma upsertCustomConfig_claims [simp]:
  "VolumeClaimTemplates (sts_Spec (upsertCustomConfig api s db)) = VolumeClaimTemplates (sts_Spec s)"
  by (simp add: upsertCustomConfig_def split: option.splits)

lemma setServiceAccountAndStrategy_claims [simp]:
  "VolumeClaimTemplates (sts_Spec (setServiceAccountAndStrategy db s))
     = VolumeClaimTemplates (sts_Spec s)"
  by (simp add: setServiceAccountAndStrategy_def Let_def)

lemma ensureStatefulSet_mutator_claims:
  shows "StorageType (pg_Spec db) \<noteq> StorageTypeEphemeral api \<Longrightarrow> Storage (pg_Spec db) = Some pvc \<Longrightarrow>
           \<exists>out. ensureStatefulSet_mutator api c db pv envList owner replicas s = Inr out
             \<and> VolumeClaimTemplates (sts_Spec out)
                 = UpsertVolumeClaim (VolumeClaimTemplates (sts_Spec s))
                     (dataClaim (if AccessModes pvc = []
                                 then pvc\<lparr>AccessModes := [ReadWriteOnce]\<rparr> else pvc))"
    and "StorageType (pg_Spec db) = StorageTypeEphemeral api \<Longrightarrow>
           \<exists>out. ensureStatefulSet_mutator api c db pv envList owner replicas s = Inr out
             \<and> VolumeClaimTemplates (sts_Spec out) = VolumeClaimTemplates (sts_Spec s)"
    and "StorageType (pg_Spec db) \<noteq> StorageTypeEphemeral api \<Longrightarrow> Storage (pg_Spec db) = None \<Longrightarrow>
           ensureStatefulSet_mutator api c db pv envList owner replicas s = Inl NilPointerDereference"
proof -
  let ?s4 = "setScheduling db (upsertUserEnv api
               (upsertEnv api (upsertPodContainers api c db pv (setIdentity api db owner replicas s))
                  db envList) db)"
  let ?s7 = "upsertShm api (attachSecrets api db (upsertMonitoringContainer api ?s4 db pv))"
  have "ResourceSingularPostgres api \<in> set (containerNames ?s4)"
    by (simp add: upsertPodContainers_names)
  then have pg: "ResourceSingularPostgres api \<in> set (containerNames ?s7)"
    by (simp add: upsertMonitoringContainer_names)
  have v: "VolumeClaimTemplates (sts_Spec ?s7) = VolumeClaimTemplates (sts_Spec s)"
    by simp
  have m: "ensureStatefulSet_mutator api c db pv envList owner replicas s
      = (case upsertDataVolume api ?s7 db of
           Inl p \<Rightarrow> Inl p
         | Inr (in', db) \<Rightarrow> Inr (setServiceAccountAndStrategy db (upsertCustomConfig api in' db)))"
    by (simp add: ensureStatefulSet_mutator_def Let_def)
  {
    assume a: "StorageType (pg_Spec db) \<noteq> StorageTypeEphemeral api" "Storage (pg_Spec db) = Some pvc"
    from upsertDataVolume_persistent [OF pg a] obtain s8 db' where
      r: "upsertDataVolume api ?s7 db = Inr (s8, db')"
      and k: "VolumeClaimTemplates (sts_Spec s8)
          = UpsertVolumeClaim (VolumeClaimTemplates (sts_Spec ?s7))
              (dataClaim (if AccessModes pvc = [] then pvc\<lparr>AccessModes := [ReadWriteOnce]\<rparr> else pvc))"
      by blast
    from k show "\<exists>out. ensureStatefulSet_mutator api c db pv envList owner replicas s = Inr out
             \<and> VolumeClaimTemplates (sts_Spec out)
                 = UpsertVolumeClaim (VolumeClaimTemplates (sts_Spec s))
                     (dataClaim (if AccessModes pvc = []
                                 then pvc\<lparr>AccessModes := [ReadWriteOnce]\<rparr> else pvc))"
      by (simp add: m r v)
  }
  {
    assume a: "StorageType (pg_Spec db) = StorageTypeEphemeral api"
    from upsertDataVolume_ephemeral [OF pg a] obtain s8 where
      r: "upsertDataVolume api ?s7 db = Inr (s8, db)"
      and k: "VolumeClaimTemplates (sts_Spec s8) = VolumeClaimTemplates (sts_Spec ?s7)"
      by blast
    from k show "\<exists>out. ensureStatefulSet_mutator api c db pv envList owner replicas s = Inr out
             \<and> VolumeClaimTemplates (sts_Spec out) = VolumeClaimTemplates (sts_Spec s)"
      by (simp add: m r v)
  }
  {
    assume a: "StorageType (pg_Spec db) \<noteq> StorageTypeEphemeral api" "Storage (pg_Spec db) = None"
    from upsertDataVolume_nil_storage [OF pg a]
    show "ensureStatefulSet_mutator api c db pv envList owner replicas s = Inl NilPointerDereference"
      by (simp add: m)
  }
qed


end
